theory Spec2Isabelle
  imports Main "HOL-Library.Multiset"
begin

section \<open>Strings and numbers as the widget uses them\<close>

text \<open>
  Strings are lists of characters with code points below 256.  The functions of this
  section are the platform operations that \<^verbatim>\<open>Reservation_Framer.tsx\<close> calls on
  strings and numbers: \<^verbatim>\<open>String.prototype.trim\<close>, \<^verbatim>\<open>toLowerCase\<close>,
  \<^verbatim>\<open>split("T")[0]\<close>, \<^verbatim>\<open>padStart(2, "0")\<close> and the decimal rendering of an
  integer in a template literal or by \<^verbatim>\<open>toString()\<close>.
\<close>

definition is_space :: "char \<Rightarrow> bool" where
  \<comment> \<open>White space and line terminators of ECMAScript below code point 256:
      TAB, LF, VT, FF, CR, SP and NBSP.\<close>
  "is_space c = (of_char c \<in> {9, 10, 11, 12, 13, 32, 160 :: nat})"

definition trim :: "string \<Rightarrow> string" where
  "trim s = rev (dropWhile is_space (rev (dropWhile is_space s)))"

definition lower_char :: "char \<Rightarrow> char" where
  \<comment> \<open>A..Z, and the Latin-1 capitals 192..222 except the multiplication sign 215.\<close>
  "lower_char c =
     (let n = (of_char c :: nat)
      in if (65 \<le> n \<and> n \<le> 90) \<or> (192 \<le> n \<and> n \<le> 222 \<and> n \<noteq> 215)
         then char_of (n + 32) else c)"

definition toLowerCase :: "string \<Rightarrow> string" where
  "toLowerCase s = map lower_char s"

definition split_T_first :: "string \<Rightarrow> string" where
  \<comment> \<open>\<^verbatim>\<open>s.split("T")[0]\<close>: the text before the first capital T, all of it when
      there is none.\<close>
  "split_T_first s = takeWhile (\<lambda>c. c \<noteq> CHR ''T'') s"

definition digit_char :: "nat \<Rightarrow> char" where
  "digit_char n = ''0123456789'' ! (n mod 10)"

fun show_nat :: "nat \<Rightarrow> string" where
  "show_nat n = (if n < 10 then [digit_char n] else show_nat (n div 10) @ [digit_char n])"

declare show_nat.simps [simp del]

definition show_int :: "int \<Rightarrow> string" where
  "show_int i = (if i < 0 then CHR ''-'' # show_nat (nat (- i)) else show_nat (nat i))"

definition padStart2 :: "string \<Rightarrow> string" where
  \<comment> \<open>\<^verbatim>\<open>s.padStart(2, "0")\<close>\<close>
  "padStart2 s = replicate (2 - length s) CHR ''0'' @ s"

section \<open>Availability: the provider's answer and its normalisation\<close>

text \<open>
  The effect at lines 745--863 posts one request to the provider's \<^verbatim>\<open>times\<close>
  endpoint and, on a successful answer, rebuilds \<^verbatim>\<open>availableSlots\<close> from
  \<^verbatim>\<open>apiData.times\<close> (lines 808--844).  The answer is taken in the provider's
  shape: an object from resource ids to arrays of slots, each slot with an optional
  \<^verbatim>\<open>startTime\<close> and \<^verbatim>\<open>endTime\<close>.  The entries are listed in the order in which
  \<^verbatim>\<open>Object.entries\<close> yields them; a value that is not an array is \<open>None\<close>.
\<close>

record api_slot =
  api_startTime :: "string option"
  api_endTime :: "string option"

datatype api_data =
  NoTimes  \<comment> \<open>\<^verbatim>\<open>apiData && apiData.times\<close> is falsy\<close>
  | Times "(string \<times> api_slot list option) list"

record time_slot =
  startTime :: string
  endTime :: "string option"
  resourceId :: string

type_synonym availability = "string \<rightharpoonup> time_slot list"

text \<open>
  \<^verbatim>\<open>slotsGroupedByDate\<close> is a plain object literal, so a key that names a property
  of \<^verbatim>\<open>Object.prototype\<close> reads as that inherited (truthy) value: the guard
  \<^verbatim>\<open>!slotsGroupedByDate[slotDate]\<close> is then false, no array is stored, and
  \<^verbatim>\<open>.push\<close> on the inherited value throws a TypeError, which the surrounding
  \<^verbatim>\<open>try\<close> turns into the error state.  Errors are carried by their message.
\<close>

definition object_prototype_keys :: "string list" where
  "object_prototype_keys =
     [''constructor'', ''hasOwnProperty'', ''isPrototypeOf'', ''propertyIsEnumerable'',
      ''toLocaleString'', ''toString'', ''valueOf'', ''__proto__'',
      ''__defineGetter__'', ''__defineSetter__'', ''__lookupGetter__'', ''__lookupSetter__'']"

definition push_not_a_function :: string where
  "push_not_a_function = ''slotsGroupedByDate[slotDate].push is not a function''"

definition push_slot :: "string \<Rightarrow> availability \<Rightarrow> api_slot \<Rightarrow> string + availability" where
  \<comment> \<open>The body of \<^verbatim>\<open>resourceSlots.forEach\<close>, lines 814--827.\<close>
  "push_slot rid m slot =
     (case api_startTime slot of
        None \<Rightarrow> Inr m
      | Some st \<Rightarrow>
          if st = [] then Inr m
          else
            let slotDate = split_T_first st
            in if slotDate \<in> set object_prototype_keys then Inl push_not_a_function
               else Inr (m(slotDate \<mapsto>
                      (case m slotDate of None \<Rightarrow> [] | Some xs \<Rightarrow> xs) @
                      [\<lparr>startTime = st, endTime = api_endTime slot, resourceId = rid\<rparr>])))"

fun group_slots :: "string \<Rightarrow> availability \<Rightarrow> api_slot list \<Rightarrow> string + availability" where
  "group_slots rid m [] = Inr m"
| "group_slots rid m (slot # slots) =
     (case push_slot rid m slot of
        Inl e \<Rightarrow> Inl e
      | Inr m' \<Rightarrow> group_slots rid m' slots)"

fun group_resources ::
  "availability \<Rightarrow> (string \<times> api_slot list option) list \<Rightarrow> string + availability" where
  "group_resources m [] = Inr m"
| "group_resources m ((rid, None) # es) = group_resources m es"
| "group_resources m ((rid, Some slots) # es) =
     (case group_slots rid m slots of
        Inl e \<Rightarrow> Inl e
      | Inr m' \<Rightarrow> group_resources m' es)"

text \<open>
  \<^verbatim>\<open>new Date(s).getTime()\<close> is a parameter \<open>getTime\<close> of the model: the time
  value of the text, \<open>None\<close> for NaN (an invalid date).  The comparator of lines
  835--837 subtracts two time values; \<^verbatim>\<open>Array.prototype.sort\<close> reads a NaN result as
  \<open>0\<close>.  The sort is stable (ECMAScript 2019); it is written as the insertion of
  each element, from the last to the first, in front of the first element it does not
  exceed.  Where every start time is a valid date this is the one order the language
  allows; where some are not, the language leaves the order to the engine.
\<close>

definition compareSlots :: "(string \<Rightarrow> int option) \<Rightarrow> time_slot \<Rightarrow> time_slot \<Rightarrow> int" where
  "compareSlots getTime a b =
     (case (getTime (startTime a), getTime (startTime b)) of
        (Some x, Some y) \<Rightarrow> x - y
      | _ \<Rightarrow> 0)"

fun sort_insert :: "('a \<Rightarrow> 'a \<Rightarrow> int) \<Rightarrow> 'a \<Rightarrow> 'a list \<Rightarrow> 'a list" where
  "sort_insert cmp x [] = [x]"
| "sort_insert cmp x (y # ys) =
     (if cmp x y \<le> 0 then x # y # ys else y # sort_insert cmp x ys)"

definition array_sort :: "('a \<Rightarrow> 'a \<Rightarrow> int) \<Rightarrow> 'a list \<Rightarrow> 'a list" where
  "array_sort cmp xs = foldr (sort_insert cmp) xs []"

definition sort_each_date :: "(string \<Rightarrow> int option) \<Rightarrow> availability \<Rightarrow> availability" where
  \<comment> \<open>\<^verbatim>\<open>Object.keys(slotsGroupedByDate).forEach(...sort...)\<close>, lines 833--839.\<close>
  "sort_each_date getTime m = (\<lambda>date. map_option (array_sort (compareSlots getTime)) (m date))"

definition normalizeAvailability ::
  "(string \<Rightarrow> int option) \<Rightarrow> api_data \<Rightarrow> string + availability" where
  \<comment> \<open>Lines 808--844: the value handed to \<^verbatim>\<open>setAvailableSlots\<close>, or the message of
      the error thrown on the way.\<close>
  "normalizeAvailability getTime apiData =
     (case apiData of
        NoTimes \<Rightarrow> Inr Map.empty
      | Times entries \<Rightarrow>
          (case group_resources Map.empty entries of
             Inl e \<Rightarrow> Inl e
           | Inr m \<Rightarrow> Inr (sort_each_date getTime m)))"

text \<open>
  The slots of an answer that carry a start time, in the order in which the two nested
  \<^verbatim>\<open>forEach\<close> loops visit them.
\<close>

fun returned_slots_of :: "string \<Rightarrow> api_slot list \<Rightarrow> time_slot list" where
  "returned_slots_of rid [] = []"
| "returned_slots_of rid (slot # slots) =
     (case api_startTime slot of
        None \<Rightarrow> returned_slots_of rid slots
      | Some st \<Rightarrow>
          if st = [] then returned_slots_of rid slots
          else \<lparr>startTime = st, endTime = api_endTime slot, resourceId = rid\<rparr>
                 # returned_slots_of rid slots)"

fun returned_entries :: "(string \<times> api_slot list option) list \<Rightarrow> time_slot list" where
  "returned_entries [] = []"
| "returned_entries ((rid, None) # es) = returned_entries es"
| "returned_entries ((rid, Some slots) # es) = returned_slots_of rid slots @ returned_entries es"

definition returned_slots :: "api_data \<Rightarrow> time_slot list" where
  "returned_slots apiData = (case apiData of NoTimes \<Rightarrow> [] | Times entries \<Rightarrow> returned_entries entries)"

definition slot_date :: "time_slot \<Rightarrow> string" where
  "slot_date s = split_T_first (startTime s)"

definition time_le :: "(string \<Rightarrow> int option) \<Rightarrow> time_slot \<Rightarrow> time_slot \<Rightarrow> bool" where
  \<comment> \<open>The first slot starts no later than the second, both start times being valid.\<close>
  "time_le getTime a b =
     (case (getTime (startTime a), getTime (startTime b)) of
        (Some x, Some y) \<Rightarrow> x \<le> y
      | _ \<Rightarrow> False)"

definition slots_at :: "availability \<Rightarrow> string \<Rightarrow> time_slot list" where
  \<comment> \<open>\<^verbatim>\<open>availableSlots[dateString] || []\<close>: a stored array is truthy even when empty.\<close>
  "slots_at m d = (case m d of None \<Rightarrow> [] | Some xs \<Rightarrow> xs)"

definition avail_inv :: "availability \<Rightarrow> bool" where
  "avail_inv m = (\<forall>d xs. m d = Some xs \<longrightarrow> xs \<noteq> [] \<and> (\<forall>s \<in> set xs. slot_date s = d))"

section \<open>Calendar dates\<close>

text \<open>
  A \<^verbatim>\<open>Date\<close> is read through its local-time accessors: \<^verbatim>\<open>getFullYear\<close>,
  \<^verbatim>\<open>getMonth\<close> (0 to 11), \<^verbatim>\<open>getDate\<close> (1 to 31) and the milliseconds since
  local midnight.  Two dates compare as their time values do, which for local civil
  dates is the lexicographic order of these four.  The model covers the Gregorian years
  from 100 on, which the \<^verbatim>\<open>Date\<close> constructor takes as written, and days without a
  change of the clock; the clock is read once for one rendering.
\<close>

record js_date =
  getFullYear :: int
  getMonth :: nat
  getDate :: nat
  ms_of_day :: nat

definition leap_year :: "int \<Rightarrow> bool" where
  "leap_year y = ((y mod 4 = 0 \<and> y mod 100 \<noteq> 0) \<or> y mod 400 = 0)"

definition days_in_month :: "int \<Rightarrow> nat \<Rightarrow> nat" where
  "days_in_month y m =
     (if m = 1 then (if leap_year y then 29 else 28)
      else if m \<in> {3, 5, 8, 10} then 30 else 31)"

definition valid_date :: "js_date \<Rightarrow> bool" where
  "valid_date d =
     (getMonth d < 12 \<and> 1 \<le> getDate d \<and> getDate d \<le> days_in_month (getFullYear d) (getMonth d))"

definition next_day :: "js_date \<Rightarrow> js_date" where
  "next_day d =
     (if getDate d < days_in_month (getFullYear d) (getMonth d) then d\<lparr>getDate := getDate d + 1\<rparr>
      else if getMonth d < 11 then d\<lparr>getMonth := getMonth d + 1, getDate := 1\<rparr>
      else d\<lparr>getFullYear := getFullYear d + 1, getMonth := 0, getDate := 1\<rparr>)"

definition prev_day :: "js_date \<Rightarrow> js_date" where
  "prev_day d =
     (if 1 < getDate d then d\<lparr>getDate := getDate d - 1\<rparr>
      else if 0 < getMonth d
        then d\<lparr>getMonth := getMonth d - 1,
               getDate := days_in_month (getFullYear d) (getMonth d - 1)\<rparr>
      else d\<lparr>getFullYear := getFullYear d - 1, getMonth := 11, getDate := 31\<rparr>)"

fun add_days :: "nat \<Rightarrow> js_date \<Rightarrow> js_date" where
  \<comment> \<open>\<^verbatim>\<open>d.setDate(d.getDate() + n)\<close>: the day of the month runs over into the
      following months.\<close>
  "add_days 0 d = d"
| "add_days (Suc n) d = add_days n (next_day d)"

definition new_Date :: "int \<Rightarrow> nat \<Rightarrow> nat \<Rightarrow> js_date" where
  \<comment> \<open>\<^verbatim>\<open>new Date(year, month, day)\<close> at local midnight: month 12 is January of the
      next year, day 0 is the last day of the month before.\<close>
  "new_Date y m d =
     (let first = \<lparr>getFullYear = y + int (m div 12), getMonth = m mod 12, getDate = 1, ms_of_day = 0\<rparr>
      in if d = 0 then prev_day first else add_days (d - 1) first)"

definition days_from_civil :: "int \<Rightarrow> nat \<Rightarrow> nat \<Rightarrow> int" where
  \<comment> \<open>Days from 1970-01-01 to the given date (month 0 to 11).\<close>
  "days_from_civil y m d =
     (let y' = (if m < 2 then y - 1 else y);
          era = y' div 400;
          yoe = y' - era * 400;
          mp = (if m < 2 then int m + 10 else int m - 2);
          doy = (153 * mp + 2) div 5 + int d - 1;
          doe = yoe * 365 + yoe div 4 - yoe div 100 + doy
      in era * 146097 + doe - 719468)"

definition getDay :: "js_date \<Rightarrow> nat" where
  \<comment> \<open>The day of the week, Sunday being 0; 1970-01-01 was a Thursday.\<close>
  "getDay d = nat ((days_from_civil (getFullYear d) (getMonth d) (getDate d) + 4) mod 7)"

definition date_less :: "js_date \<Rightarrow> js_date \<Rightarrow> bool" where
  \<comment> \<open>\<^verbatim>\<open>a < b\<close> on two dates.\<close>
  "date_less a b =
     (getFullYear a < getFullYear b \<or>
      (getFullYear a = getFullYear b \<and>
       (getMonth a < getMonth b \<or>
        (getMonth a = getMonth b \<and>
         (getDate a < getDate b \<or>
          (getDate a = getDate b \<and> ms_of_day a < ms_of_day b))))))"

definition calendar_before :: "js_date \<Rightarrow> js_date \<Rightarrow> bool" where
  \<comment> \<open>The calendar date of the first is strictly before that of the second, the time
      of day ignored.\<close>
  "calendar_before a b =
     (getFullYear a < getFullYear b \<or>
      (getFullYear a = getFullYear b \<and>
       (getMonth a < getMonth b \<or> (getMonth a = getMonth b \<and> getDate a < getDate b))))"

definition formatDateString :: "js_date \<Rightarrow> string" where
  \<comment> \<open>Lines 202--207.\<close>
  "formatDateString d =
     show_int (getFullYear d) @ ''-'' @ padStart2 (show_nat (getMonth d + 1)) @ ''-'' @
     padStart2 (show_nat (getDate d))"

definition isDateInPast :: "js_date \<Rightarrow> js_date \<Rightarrow> bool" where
  \<comment> \<open>Lines 247--260; the first argument is the reading of the clock, \<^verbatim>\<open>new Date()\<close>.\<close>
  "isDateInPast today d =
     (let todayDateOnly = new_Date (getFullYear today) (getMonth today) (getDate today);
          checkDateOnly = new_Date (getFullYear d) (getMonth d) (getDate d)
      in date_less checkDateOnly todayDateOnly)"

definition isToday :: "js_date \<Rightarrow> js_date \<Rightarrow> bool" where
  \<comment> \<open>Lines 265--272.\<close>
  "isToday today d =
     (getFullYear d = getFullYear today \<and> getMonth d = getMonth today \<and> getDate d = getDate today)"

section \<open>Configuration and component state\<close>

text \<open>
  The properties the core reads (lines 329--527) and the state of the component
  (lines 674--718).  \<^verbatim>\<open>formFields\<close> and \<^verbatim>\<open>checkboxes\<close> are objects with one entry
  for each field and each checkbox; \<^verbatim>\<open>Object.entries\<close> lists them in the order in
  which the property controls declare them.

  The prices of a service are numbers of the language.  Their type is the parameter
  \<open>'n\<close> of the model, and the two operations that the code applies to them, the
  addition \<^verbatim>\<open>+\<close> and \<^verbatim>\<open>toString()\<close> (lines 1056--1058 and 1142--1144), are
  parameters too: nothing is assumed about the arithmetic of the platform.
\<close>

record 'n number_ops =
  number_add :: "'n \<Rightarrow> 'n \<Rightarrow> 'n"
  number_toString :: "'n \<Rightarrow> string"

datatype field_name =
  FirstName | LastName | Email | Phone | Address | City | ZipCode | Company | Comments

datatype checkbox_name = Terms | Privacy | Newsletter

definition all_fields :: "field_name list" where
  "all_fields = [FirstName, LastName, Email, Phone, Address, City, ZipCode, Company, Comments]"

definition all_checkboxes :: "checkbox_name list" where
  "all_checkboxes = [Terms, Privacy, Newsletter]"

record control_config =
  show' :: bool
  required :: bool
  label :: string

record 'n service =
  enabled :: bool
  service_id :: string
  name :: string
  description :: string
  basePrice :: 'n
  apaPrice :: 'n
  duration :: string

record 'n config =
  organizationId :: string
  apiResourceId :: string
  title :: string
  successUrl :: string
  cancelUrl :: string
  termsUrl :: string
  privacyUrl :: string
  servicesCount :: nat
  allServices :: "'n service list"
  formFields :: "field_name \<Rightarrow> control_config"
  checkboxes :: "checkbox_name \<Rightarrow> control_config"
  showPrices :: bool
  showDescriptions :: bool
  showDuration :: bool
  calendarView :: string

definition activeServices :: "'n config \<Rightarrow> 'n service list" where
  \<comment> \<open>Lines 665--668.\<close>
  "activeServices cfg = filter enabled (take (servicesCount cfg) (allServices cfg))"

record customer_info =
  field_value :: "field_name \<Rightarrow> string"
  accepted :: "checkbox_name \<Rightarrow> bool"

definition empty_customer_info :: customer_info where
  \<comment> \<open>The initial value of \<^verbatim>\<open>customerInfo\<close>, lines 705--718 and 1231--1244.\<close>
  "empty_customer_info = \<lparr>field_value = (\<lambda>_. []), accepted = (\<lambda>_. False)\<rparr>"

text \<open>
  A parsed JSON value; a property that is missing reads \<^verbatim>\<open>undefined\<close>, here
  \<open>None\<close>.  Numbers are integers in the model.
\<close>

datatype json =
  JNull | JBool bool | JNumber int | JString string | JArray "json list"
  | JObject "(string \<times> json) list"

fun get_prop :: "json \<Rightarrow> string \<Rightarrow> json option" where
  \<comment> \<open>\<^verbatim>\<open>v.key\<close> for a key that is no property of a prototype; \<open>v\<close> is not null.\<close>
  "get_prop (JObject kvs) k = map_of kvs k"
| "get_prop _ k = None"

fun truthy :: "json option \<Rightarrow> bool" where
  "truthy None = False"
| "truthy (Some JNull) = False"
| "truthy (Some (JBool b)) = b"
| "truthy (Some (JNumber n)) = (n \<noteq> 0)"
| "truthy (Some (JString s)) = (s \<noteq> [])"
| "truthy (Some _) = True"

definition js_or :: "json option \<Rightarrow> json option \<Rightarrow> json option" where
  \<comment> \<open>\<^verbatim>\<open>a || b\<close>\<close>
  "js_or a b = (if truthy a then a else b)"

definition opt_chain :: "json option \<Rightarrow> string \<Rightarrow> json option" where
  \<comment> \<open>\<^verbatim>\<open>a?.key\<close>\<close>
  "opt_chain a k = (case a of None \<Rightarrow> None | Some JNull \<Rightarrow> None | Some v \<Rightarrow> get_prop v k)"

record booking_result =
  bookingId :: "json option"
  booking_status :: "json option"
  paymentUrl :: "json option"
  manualPayment :: bool
  apiUsed :: string

record component_state =
  currentYear :: int
  currentMonth :: nat
  currentWeekStart :: js_date
  selectedServiceId :: string
  availableSlots :: availability
  loading :: bool
  error :: "string option"
  selectedDate :: "string option"
  selectedTimeSlot :: "time_slot option"
  showTimeSelection :: bool
  showBookingForm :: bool
  isBooking :: bool
  bookingSuccess :: "booking_result option"
  customerInfo :: customer_info

text \<open>
  What \<^verbatim>\<open>fetch\<close> settles with: it rejects with an error, or it resolves with a
  response.  The body of a response has been received; \<open>body_json\<close> is what
  \<^verbatim>\<open>response.json()\<close> gives, the message of its error when the body is not JSON.
\<close>

record 'a response =
  ok :: bool
  status :: nat
  body_text :: string
  body_json :: "string + 'a"

datatype 'a fetch_outcome = Rejected string | Responded "'a response"

section \<open>The availability fetch\<close>

definition fetchAvailability_begin :: "component_state \<Rightarrow> component_state" where
  \<comment> \<open>Lines 754--755: what \<^verbatim>\<open>fetchAvailability\<close> does before it awaits.\<close>
  "fetchAvailability_begin st = st\<lparr>loading := True, error := None\<rparr>"

definition availability_effect :: "'n config \<Rightarrow> component_state \<Rightarrow> component_state \<times> string list" where
  \<comment> \<open>Lines 745--853, run after a rendering in which one of the dependencies of lines
      854--863 has changed.  The second component lists the services whose times are
      requested (none or one).\<close>
  "availability_effect cfg st =
     (if selectedServiceId st = [] \<or> length (activeServices cfg) = 0 then (st, [])
      else (fetchAvailability_begin st, [selectedServiceId st]))"

definition fetch_failed :: "string \<Rightarrow> component_state \<Rightarrow> component_state" where
  \<comment> \<open>Lines 845--850: \<^verbatim>\<open>catch\<close> and \<^verbatim>\<open>finally\<close>.\<close>
  "fetch_failed message st =
     st\<lparr>error := Some (if message = [] then ''Unable to load availability'' else message),
        loading := False\<rparr>"

definition fetchAvailability_settle ::
  "(string \<Rightarrow> int option) \<Rightarrow> api_data fetch_outcome \<Rightarrow> component_state \<Rightarrow> component_state" where
  \<comment> \<open>Lines 797--850: the continuation of \<^verbatim>\<open>fetchAvailability\<close> once its request has
      settled.  It runs on the state of the component at that moment; nothing in it
      tells which request it belongs to.\<close>
  "fetchAvailability_settle getTime outcome st =
     (case outcome of
        Rejected message \<Rightarrow> fetch_failed message st
      | Responded r \<Rightarrow>
          if \<not> ok r
          then fetch_failed (''Bookla API Error: '' @ show_nat (status r) @ '' - '' @ body_text r) st
          else
            (case body_json r of
               Inl message \<Rightarrow> fetch_failed message st
             | Inr apiData \<Rightarrow>
                 (case normalizeAvailability getTime apiData of
                    Inl message \<Rightarrow> fetch_failed message st
                  | Inr slotsGroupedByDate \<Rightarrow>
                      st\<lparr>availableSlots := slotsGroupedByDate, loading := False\<rparr>)))"

definition setSelectedServiceId :: "string \<Rightarrow> component_state \<Rightarrow> component_state" where
  \<comment> \<open>The \<^verbatim>\<open>onChange\<close> of the service selector, lines 1641--1643.\<close>
  "setSelectedServiceId sid st = st\<lparr>selectedServiceId := sid\<rparr>"

definition select_service :: "'n config \<Rightarrow> string \<Rightarrow> component_state \<Rightarrow> component_state" where
  \<comment> \<open>The user picks a service in the selector: the selector is disabled while
      \<^verbatim>\<open>loading\<close> is set (line 1657); picking the selected service changes nothing;
      otherwise the state is set and, \<^verbatim>\<open>selectedServiceId\<close> being a dependency of the
      effect, the effect runs.\<close>
  "select_service cfg sid st =
     (if loading st \<or> sid = selectedServiceId st then st
      else fst (availability_effect cfg (setSelectedServiceId sid st)))"

section \<open>The calendar grid\<close>

definition handleDateSelection :: "string \<Rightarrow> component_state \<Rightarrow> component_state" where
  \<comment> \<open>Lines 943--947.\<close>
  "handleDateSelection dateString st =
     st\<lparr>selectedDate := Some dateString, selectedTimeSlot := None, showTimeSelection := True\<rparr>"

definition handleTimeSlotSelection :: "time_slot \<Rightarrow> component_state \<Rightarrow> component_state" where
  \<comment> \<open>Lines 949--953.\<close>
  "handleTimeSlotSelection timeSlot st =
     st\<lparr>selectedTimeSlot := Some timeSlot, showTimeSelection := False, showBookingForm := True\<rparr>"

record day_cell =
  cell_date :: js_date
  dateString :: string
  isDateAvailable :: bool
  isCurrentDay :: bool
  isPastDate :: bool

datatype calendar_cell = EmptyDay nat | Day day_cell

definition day_of :: "availability \<Rightarrow> js_date \<Rightarrow> js_date \<Rightarrow> day_cell" where
  \<comment> \<open>Lines 1322--1326 and 1450--1454, the same in both views.\<close>
  "day_of slots today currentDate =
     (let ds = formatDateString currentDate;
          daySlots = slots_at slots ds
      in \<lparr>cell_date = currentDate, dateString = ds,
          isDateAvailable = (length daySlots > 0),
          isCurrentDay = isToday today currentDate,
          isPastDate = isDateInPast today currentDate\<rparr>)"

definition generateCalendarDays :: "'n config \<Rightarrow> js_date \<Rightarrow> component_state \<Rightarrow> calendar_cell list" where
  \<comment> \<open>Lines 1314--1524.\<close>
  "generateCalendarDays cfg today st =
     (if calendarView cfg = ''week''
      then map (\<lambda>i. Day (day_of (availableSlots st) today (add_days i (currentWeekStart st)))) [0..<7]
      else
        let firstDayOfMonth = new_Date (currentYear st) (currentMonth st) 1;
            lastDayOfMonth = new_Date (currentYear st) (currentMonth st + 1) 0;
            totalDaysInMonth = getDate lastDayOfMonth;
            startingWeekday = (getDay firstDayOfMonth + 6) mod 7
        in map EmptyDay [0..<startingWeekday] @
           map (\<lambda>dayNumber. Day (day_of (availableSlots st) today
                   (new_Date (currentYear st) (currentMonth st) dayNumber)))
             [1..<totalDaysInMonth + 1])"

definition cell_onClick :: "calendar_cell \<Rightarrow> component_state \<Rightarrow> component_state" where
  \<comment> \<open>The \<^verbatim>\<open>onClick\<close> of a cell, lines 1363--1368 and 1491--1496; a padding cell
      has none.\<close>
  "cell_onClick c st =
     (case c of
        EmptyDay _ \<Rightarrow> st
      | Day d \<Rightarrow>
          if isDateAvailable d \<and> \<not> isPastDate d then handleDateSelection (dateString d) st
          else st)"

datatype grid_view = NoActiveServices | LoadingState | ErrorState string | CalendarDays "calendar_cell list"

definition calendar_grid :: "'n config \<Rightarrow> js_date \<Rightarrow> component_state \<Rightarrow> grid_view" where
  \<comment> \<open>What the grid shows: lines 1271--1309 and 1993--2076.  An empty error message is
      falsy.\<close>
  "calendar_grid cfg today st =
     (if length (activeServices cfg) = 0 then NoActiveServices
      else if loading st then LoadingState
      else
        (case error st of
           Some message \<Rightarrow>
             if message \<noteq> [] then ErrorState message
             else CalendarDays (generateCalendarDays cfg today st)
         | None \<Rightarrow> CalendarDays (generateCalendarDays cfg today st)))"

section \<open>The booking submission\<close>

text \<open>
  The two requests of \<^verbatim>\<open>handleBookingSubmit\<close> (lines 1023--1082 and 1106--1164).
  \<^verbatim>\<open>JSON.stringify\<close> leaves out a property whose value is \<^verbatim>\<open>undefined\<close>, and
  the spread of a falsy value adds nothing: such a property is \<open>None\<close>.
\<close>

record client_block =
  email :: string
  firstName :: string
  lastName :: string
  phone :: string
  address :: "string option"
  city :: "string option"
  zipCode :: "string option"
  company :: "string option"

record meta_data =
  source :: string
  booking_policy :: "string option"
  payment_method :: string
  total_amount :: string
  service_name :: string
  service_description :: "string option"
  service_duration :: "string option"
  comments :: "string option"
  newsletter_opt_in :: bool
  privacy_accepted :: bool
  created_at :: string
  success_url :: "string option"
  cancel_url :: "string option"
  terms_url :: "string option"
  privacy_url :: "string option"

record booking_payload =
  client :: client_block
  companyID :: string
  serviceID :: string
  resourceID :: string
  payload_startTime :: string
  spots :: nat
  metaData :: meta_data

record client_payload = booking_payload +
  customPurchaseDescription :: string

record merchant_payload = booking_payload +
  payload_endTime :: "string option"
  payload_status :: string
  requirePayment :: bool
  termsAccepted :: bool

datatype form_control = FieldControl field_name | CheckboxControl checkbox_name

datatype effect =
  Alert string
  | PostClient client_payload
  | PostMerchant merchant_payload
  | OpenAfter nat json
  | ReportInvalid form_control

definition optional_field :: "'n config \<Rightarrow> customer_info \<Rightarrow> field_name \<Rightarrow> string option" where
  \<comment> \<open>\<^verbatim>\<open>formFields.f.show && customerInfo.f && { f: customerInfo.f.trim() }\<close>, and
      the conditional of lines 1066--1069: a string is truthy when it is not empty.\<close>
  "optional_field cfg info f =
     (if show' (formFields cfg f) \<and> field_value info f \<noteq> [] then Some (trim (field_value info f))
      else None)"

definition build_client :: "'n config \<Rightarrow> customer_info \<Rightarrow> client_block" where
  \<comment> \<open>Lines 1024--1045 and 1114--1135; the two blocks hold the same properties.\<close>
  "build_client cfg info =
     \<lparr>email = toLowerCase (trim (field_value info Email)),
      firstName = trim (field_value info FirstName),
      lastName = trim (field_value info LastName),
      phone = trim (field_value info Phone),
      address = optional_field cfg info Address,
      city = optional_field cfg info City,
      zipCode = optional_field cfg info ZipCode,
      company = optional_field cfg info Company\<rparr>"

definition total_amount_of :: "'n number_ops \<Rightarrow> 'n config \<Rightarrow> 'n service \<Rightarrow> string" where
  \<comment> \<open>Lines 1056--1058 and 1142--1144.\<close>
  "total_amount_of num cfg svc =
     (if showPrices cfg then number_toString num (number_add num (basePrice svc) (apaPrice svc))
      else ''0'')"

definition resource_of :: "'n config \<Rightarrow> time_slot \<Rightarrow> string" where
  \<comment> \<open>\<^verbatim>\<open>selectedTimeSlot.resourceId || apiConfig.resourceId\<close>\<close>
  "resource_of cfg slot = (if resourceId slot \<noteq> [] then resourceId slot else apiResourceId cfg)"

definition clientPayload ::
  "'n number_ops \<Rightarrow> 'n config \<Rightarrow> string \<Rightarrow> component_state \<Rightarrow> 'n service \<Rightarrow> time_slot \<Rightarrow> client_payload" where
  \<comment> \<open>Lines 1023--1082; \<open>now\<close> is \<^verbatim>\<open>new Date().toISOString()\<close>, \<open>num\<close> the
      operations on numbers.\<close>
  "clientPayload num cfg now st svc slot =
     \<lparr>client = build_client cfg (customerInfo st),
      companyID = organizationId cfg,
      serviceID = selectedServiceId st,
      resourceID = resource_of cfg slot,
      payload_startTime = startTime slot,
      spots = 1,
      metaData =
        \<lparr>source = ''framer_component_client_priority'',
         booking_policy = Some ''prepayment'',
         payment_method = ''bookla_integrated'',
         total_amount = total_amount_of num cfg svc,
         service_name = name svc,
         service_description = (if showDescriptions cfg then Some (description svc) else None),
         service_duration = (if showDuration cfg then Some (duration svc) else None),
         comments = optional_field cfg (customerInfo st) Comments,
         newsletter_opt_in =
           (if show' (checkboxes cfg Newsletter) then accepted (customerInfo st) Newsletter else False),
         privacy_accepted =
           (if show' (checkboxes cfg Privacy) then accepted (customerInfo st) Privacy else True),
         created_at = now,
         success_url = Some (successUrl cfg),
         cancel_url = Some (cancelUrl cfg),
         terms_url = Some (termsUrl cfg),
         privacy_url = Some (privacyUrl cfg)\<rparr>,
      customPurchaseDescription = ''Booking '' @ name svc @ '' - '' @ title cfg\<rparr>"

definition merchantPayload ::
  "'n number_ops \<Rightarrow> 'n config \<Rightarrow> string \<Rightarrow> component_state \<Rightarrow> 'n service \<Rightarrow> time_slot \<Rightarrow> merchant_payload" where
  \<comment> \<open>Lines 1106--1164.\<close>
  "merchantPayload num cfg now st svc slot =
     \<lparr>client = build_client cfg (customerInfo st),
      companyID = organizationId cfg,
      serviceID = selectedServiceId st,
      resourceID = resource_of cfg slot,
      payload_startTime = startTime slot,
      spots = 1,
      metaData =
        \<lparr>source = ''framer_component_merchant_fallback'',
         booking_policy = None,
         payment_method = ''bookla_integrated'',
         total_amount = total_amount_of num cfg svc,
         service_name = name svc,
         service_description = (if showDescriptions cfg then Some (description svc) else None),
         service_duration = (if showDuration cfg then Some (duration svc) else None),
         comments = optional_field cfg (customerInfo st) Comments,
         newsletter_opt_in =
           (if show' (checkboxes cfg Newsletter) then accepted (customerInfo st) Newsletter else False),
         privacy_accepted =
           (if show' (checkboxes cfg Privacy) then accepted (customerInfo st) Privacy else True),
         created_at = now,
         success_url = None,
         cancel_url = None,
         terms_url = None,
         privacy_url = None\<rparr>,
      payload_endTime = endTime slot,
      payload_status = ''pending'',
      requirePayment = True,
      termsAccepted = accepted (customerInfo st) Terms\<rparr>"

definition required_fields :: "'n config \<Rightarrow> field_name list" where
  \<comment> \<open>Lines 991--993.\<close>
  "required_fields cfg =
     filter (\<lambda>f. show' (formFields cfg f) \<and> required (formFields cfg f)) all_fields"

definition validation_alert :: "'n config \<Rightarrow> component_state \<Rightarrow> string option" where
  \<comment> \<open>Lines 972--1000: the message of the \<^verbatim>\<open>alert\<close> after which the handler returns,
      \<open>None\<close> when it goes on.  Every value of \<^verbatim>\<open>customerInfo\<close> under a field name is
      a string.\<close>
  "validation_alert cfg st =
     (if show' (checkboxes cfg Terms) \<and> required (checkboxes cfg Terms) \<and>
         \<not> accepted (customerInfo st) Terms
      then Some ''You must accept the terms and conditions''
      else if show' (checkboxes cfg Privacy) \<and> required (checkboxes cfg Privacy) \<and>
         \<not> accepted (customerInfo st) Privacy
      then Some ''You must accept the privacy policy''
      else
        (case find (\<lambda>f. trim (field_value (customerInfo st) f) = []) (required_fields cfg) of
           Some f \<Rightarrow> Some (label (formFields cfg f) @ '' is required'')
         | None \<Rightarrow> None))"

definition booking_failed :: "string \<Rightarrow> component_state \<Rightarrow> effect list \<Rightarrow> component_state \<times> effect list" where
  \<comment> \<open>Lines 1245--1250: \<^verbatim>\<open>catch\<close> and \<^verbatim>\<open>finally\<close>.\<close>
  "booking_failed message st done = (st\<lparr>isBooking := False\<rparr>, done @ [Alert (''Error: '' @ message)])"

definition null_property_message :: string where
  "null_property_message = ''Cannot read properties of null''"

definition booking_settled ::
  "string \<Rightarrow> json response \<Rightarrow> component_state \<Rightarrow> effect list \<Rightarrow> component_state \<times> effect list" where
  \<comment> \<open>Lines 1186--1250, on the last response received; \<open>done\<close> lists the effects so
      far.\<close>
  "booking_settled used r st done =
     (if \<not> ok r
      then booking_failed (''Booking error: '' @ show_nat (status r) @ '' - '' @ body_text r) st done
      else
        (case body_json r of
           Inl message \<Rightarrow> booking_failed message st done
         | Inr JNull \<Rightarrow> booking_failed null_property_message st done
         | Inr bookingData \<Rightarrow>
             let bid = js_or (get_prop bookingData ''id'')
                        (js_or (get_prop bookingData ''bookingId'')
                           (opt_chain (get_prop bookingData ''booking'') ''id''));
                 stat = js_or (get_prop bookingData ''status'')
                         (js_or (opt_chain (get_prop bookingData ''booking'') ''status'')
                            (Some (JString ''pending'')));
                 pay = js_or (get_prop bookingData ''paymentURL'')
                        (opt_chain (get_prop bookingData ''data'') ''paymentURL'')
             in (st\<lparr>bookingSuccess :=
                       Some \<lparr>bookingId = bid, booking_status = stat, paymentUrl = pay,
                             manualPayment = (\<not> truthy pay), apiUsed = used\<rparr>,
                     showBookingForm := False,
                     showTimeSelection := False,
                     selectedDate := None,
                     selectedTimeSlot := None,
                     customerInfo := empty_customer_info,
                     isBooking := False\<rparr>,
                 done @ (case pay of
                           Some url \<Rightarrow> if truthy pay then [OpenAfter 3000 url] else []
                         | None \<Rightarrow> []))))"

definition handleBookingSubmit ::
  "'n number_ops \<Rightarrow> 'n config \<Rightarrow> string \<Rightarrow> json fetch_outcome \<Rightarrow> json fetch_outcome \<Rightarrow> component_state
     \<Rightarrow> component_state \<times> effect list" where
  \<comment> \<open>Lines 968--1251.  \<open>primary\<close> and \<open>fallback\<close> are what the request to the client
      endpoint and the request to the merchant endpoint settle with, should they be
      sent.  The result is the state once the handler has finished and, in order, the
      alerts shown, the requests sent and the redirect scheduled.\<close>
  "handleBookingSubmit num cfg now primary fallback st =
     (case validation_alert cfg st of
        Some message \<Rightarrow> (st, [Alert message])
      | None \<Rightarrow>
          (case selectedTimeSlot st of
             None \<Rightarrow> (st, [Alert ''No time slot selected''])
           | Some slot \<Rightarrow>
               (case find (\<lambda>s. service_id s = selectedServiceId st) (activeServices cfg) of
                  None \<Rightarrow> booking_failed ''Service not found'' st []
                | Some svc \<Rightarrow>
                    let attempt1 = [PostClient (clientPayload num cfg now st svc slot)]
                    in (case primary of
                          Rejected message \<Rightarrow> booking_failed message st attempt1
                        | Responded r1 \<Rightarrow>
                            if ok r1 then booking_settled ''Client API'' r1 st attempt1
                            else
                              let attempt2 =
                                    attempt1 @ [PostMerchant (merchantPayload num cfg now st svc slot)]
                              in (case fallback of
                                    Rejected message \<Rightarrow> booking_failed message st attempt2
                                  | Responded r2 \<Rightarrow>
                                      booking_settled ''Merchant API (fallback)'' r2 st attempt2)))))"

text \<open>
  The handler is the \<^verbatim>\<open>onSubmit\<close> of the form of lines 2320--2586.  The form renders
  one control for each field and each checkbox whose \<^verbatim>\<open>show\<close> is on, in the order of
  \<^verbatim>\<open>Object.entries\<close>, and gives it the attribute \<^verbatim>\<open>required\<close> of its configuration
  (lines 2384, 2414 and 2473); the field \<^verbatim>\<open>email\<close> is an input of type \<^verbatim>\<open>email\<close>.  The
  form does not set \<^verbatim>\<open>noValidate\<close>, so the browser validates the controls when the
  form is submitted: when one is invalid it reports the first such control to the user
  and sends no \<^verbatim>\<open>submit\<close> event, and the handler does not run.  A required text
  control is invalid when its value is empty, a required checkbox when it is not checked,
  an input of type \<^verbatim>\<open>email\<close> when its value is not empty and not an e-mail address in
  the browser's reading, the parameter \<open>emailSyntax\<close>.
\<close>

definition form_controls :: "'n config \<Rightarrow> form_control list" where
  \<comment> \<open>Lines 2325--2422 and 2425--2530.\<close>
  "form_controls cfg =
     map FieldControl (filter (\<lambda>f. show' (formFields cfg f)) all_fields) @
     (if show' (checkboxes cfg Terms) \<or> show' (checkboxes cfg Privacy) \<or> show' (checkboxes cfg Newsletter)
      then map CheckboxControl (filter (\<lambda>c. show' (checkboxes cfg c)) all_checkboxes)
      else [])"

fun control_invalid :: "'n config \<Rightarrow> (string \<Rightarrow> bool) \<Rightarrow> customer_info \<Rightarrow> form_control \<Rightarrow> bool" where
  "control_invalid cfg emailSyntax info (FieldControl f) =
     ((required (formFields cfg f) \<and> field_value info f = []) \<or>
      (f = Email \<and> field_value info f \<noteq> [] \<and> \<not> emailSyntax (field_value info f)))"
| "control_invalid cfg emailSyntax info (CheckboxControl c) =
     (required (checkboxes cfg c) \<and> \<not> accepted info c)"

definition form_submit ::
  "'n number_ops \<Rightarrow> 'n config \<Rightarrow> (string \<Rightarrow> bool) \<Rightarrow> string \<Rightarrow> json fetch_outcome \<Rightarrow> json fetch_outcome
     \<Rightarrow> component_state \<Rightarrow> component_state \<times> effect list" where
  \<comment> \<open>The submission of the form: by its button of type \<^verbatim>\<open>submit\<close> (line 2565) or
      from a field.\<close>
  "form_submit num cfg emailSyntax now primary fallback st =
     (case find (control_invalid cfg emailSyntax (customerInfo st)) (form_controls cfg) of
        Some c \<Rightarrow> (st, [ReportInvalid c])
      | None \<Rightarrow> handleBookingSubmit num cfg now primary fallback st)"

section \<open>Reading the effects of a submission\<close>

fun is_request :: "effect \<Rightarrow> bool" where
  "is_request (PostClient _) = True"
| "is_request (PostMerchant _) = True"
| "is_request _ = False"

definition requests :: "effect list \<Rightarrow> effect list" where
  \<comment> \<open>The network calls among the effects, in order.\<close>
  "requests es = filter is_request es"

text \<open>
  An effect names a failing control when it is the browser's report of a rendered
  control that is invalid, or the handler's alert for a shown and required field that is
  blank after trimming.
\<close>

fun names_failure :: "'n config \<Rightarrow> (string \<Rightarrow> bool) \<Rightarrow> customer_info \<Rightarrow> effect \<Rightarrow> bool" where
  "names_failure cfg emailSyntax info (ReportInvalid c) =
     (c \<in> set (form_controls cfg) \<and> control_invalid cfg emailSyntax info c)"
| "names_failure cfg emailSyntax info (Alert message) =
     (\<exists>f. show' (formFields cfg f) \<and> required (formFields cfg f) \<and> trim (field_value info f) = [] \<and>
          message = label (formFields cfg f) @ '' is required'')"
| "names_failure cfg emailSyntax info _ = False"

definition optional_of :: "client_block \<Rightarrow> field_name \<Rightarrow> string option" where
  \<comment> \<open>The optional property of the client block that belongs to a field.\<close>
  "optional_of c f =
     (case f of Address \<Rightarrow> address c | City \<Rightarrow> city c | ZipCode \<Rightarrow> zipCode c | Company \<Rightarrow> company c
      | _ \<Rightarrow> None)"


section \<open>Sample values\<close>

text \<open>A provider answer with three slots on one date, out of order, and their time values.\<close>

definition example_times :: "string \<Rightarrow> int option" where
  "example_times = map_of
     [(''2025-07-14T08:00:00Z'', 1752480000000),
      (''2025-07-14T10:00:00Z'', 1752487200000),
      (''2025-07-14T14:00:00Z'', 1752501600000)]"

definition example_answer :: api_data where
  "example_answer = Times
     [(''boat-1'', Some
        [\<lparr>api_startTime = Some ''2025-07-14T10:00:00Z'', api_endTime = Some ''2025-07-14T12:00:00Z''\<rparr>,
         \<lparr>api_startTime = Some ''2025-07-14T08:00:00Z'', api_endTime = Some ''2025-07-14T10:00:00Z''\<rparr>,
         \<lparr>api_startTime = Some ''2025-07-14T14:00:00Z'', api_endTime = None\<rparr>])]"

definition example_grouped :: availability where
  "example_grouped = [''2025-07-14'' \<mapsto>
        [\<lparr>startTime = ''2025-07-14T10:00:00Z'', endTime = Some ''2025-07-14T12:00:00Z'', resourceId = ''boat-1''\<rparr>,
         \<lparr>startTime = ''2025-07-14T08:00:00Z'', endTime = Some ''2025-07-14T10:00:00Z'', resourceId = ''boat-1''\<rparr>,
         \<lparr>startTime = ''2025-07-14T14:00:00Z'', endTime = None, resourceId = ''boat-1''\<rparr>]]"

definition example_sorted :: "time_slot list" where
  "example_sorted =
        [\<lparr>startTime = ''2025-07-14T08:00:00Z'', endTime = Some ''2025-07-14T10:00:00Z'', resourceId = ''boat-1''\<rparr>,
         \<lparr>startTime = ''2025-07-14T10:00:00Z'', endTime = Some ''2025-07-14T12:00:00Z'', resourceId = ''boat-1''\<rparr>,
         \<lparr>startTime = ''2025-07-14T14:00:00Z'', endTime = None, resourceId = ''boat-1''\<rparr>]"

text \<open>
  The default properties of lines 329--527 (labels in ASCII), a state of the component
  that shows the week of Monday 2025-07-14 on Thursday 2025-07-10, and a filled form.
\<close>

definition default_formFields :: "field_name \<Rightarrow> control_config" where
  "default_formFields f =
     (case f of
        FirstName \<Rightarrow> \<lparr>show' = True, required = True, label = ''Prenom''\<rparr>
      | LastName \<Rightarrow> \<lparr>show' = True, required = True, label = ''Nom''\<rparr>
      | Email \<Rightarrow> \<lparr>show' = True, required = True, label = ''Email''\<rparr>
      | Phone \<Rightarrow> \<lparr>show' = True, required = True, label = ''Telephone''\<rparr>
      | Address \<Rightarrow> \<lparr>show' = False, required = False, label = ''Adresse''\<rparr>
      | City \<Rightarrow> \<lparr>show' = False, required = False, label = ''Ville''\<rparr>
      | ZipCode \<Rightarrow> \<lparr>show' = False, required = False, label = ''Code postal''\<rparr>
      | Company \<Rightarrow> \<lparr>show' = False, required = False, label = ''Entreprise''\<rparr>
      | Comments \<Rightarrow> \<lparr>show' = False, required = False, label = ''Commentaires''\<rparr>)"

definition default_checkboxes :: "checkbox_name \<Rightarrow> control_config" where
  "default_checkboxes c =
     (case c of
        Terms \<Rightarrow> \<lparr>show' = True, required = True, label = ''Conditions generales''\<rparr>
      | Privacy \<Rightarrow> \<lparr>show' = False, required = False, label = ''Politique de confidentialite''\<rparr>
      | Newsletter \<Rightarrow> \<lparr>show' = False, required = False, label = ''Newsletter''\<rparr>)"

text \<open>
  The prices of the samples are integers below a thousand.  On such numbers the addition
  of the language is the addition of the integers and \<^verbatim>\<open>toString()\<close> gives the
  decimal text, which is all that \<open>sample_numbers\<close> is used for.
\<close>

definition sample_numbers :: "nat number_ops" where
  "sample_numbers = \<lparr>number_add = (+), number_toString = show_nat\<rparr>"

definition example_service :: "nat service" where
  "example_service = \<lparr>enabled = True, service_id = ''Service 1'', name = ''Service Journee'',
          description = ''Une journee complete de navigation'', basePrice = 300, apaPrice = 100,
          duration = ''8 heures''\<rparr>"

definition default_config :: "nat config" where
  "default_config =
     \<lparr>organizationId = ''OrganizationID'',
      apiResourceId = ''RessourceID'',
      title = ''Reservation de Bateau'',
      successUrl = ''https://loupinedou-yacht.fr/confirmation-page'',
      cancelUrl = ''https://loupinedou-yacht.fr/error-page'',
      termsUrl = ''https://loupinedou-yacht.fr/conditions'',
      privacyUrl = ''https://loupinedou-yacht.fr/privacy'',
      servicesCount = 3,
      allServices =
        [example_service,
         \<lparr>enabled = True, service_id = ''Service 2'', name = ''Service Sunset'',
          description = ''Navigation au coucher du soleil'', basePrice = 200, apaPrice = 50,
          duration = ''4 heures''\<rparr>,
         \<lparr>enabled = True, service_id = ''Service 3'', name = ''Service Mix'',
          description = ''Formule personnalisee'', basePrice = 350, apaPrice = 120,
          duration = ''Sur mesure''\<rparr>],
      formFields = default_formFields,
      checkboxes = default_checkboxes,
      showPrices = True,
      showDescriptions = True,
      showDuration = True,
      calendarView = ''month''\<rparr>"

definition example_today :: js_date where
  "example_today = \<lparr>getFullYear = 2025, getMonth = 6, getDate = 10, ms_of_day = 34200000\<rparr>"

definition example_monday :: js_date where
  "example_monday = \<lparr>getFullYear = 2025, getMonth = 6, getDate = 14, ms_of_day = 0\<rparr>"

definition example_state :: component_state where
  "example_state =
     \<lparr>currentYear = 2025, currentMonth = 6, currentWeekStart = example_monday,
      selectedServiceId = ''Service 1'',
      availableSlots = [''2025-07-14'' \<mapsto> example_sorted],
      loading = False, error = None, selectedDate = None, selectedTimeSlot = None,
      showTimeSelection = False, showBookingForm = False, isBooking = False,
      bookingSuccess = None, customerInfo = empty_customer_info\<rparr>"

definition ok_response :: "'a \<Rightarrow> 'a response" where
  "ok_response v = \<lparr>ok = True, status = 200, body_text = [], body_json = Inr v\<rparr>"

definition failure_response :: "nat \<Rightarrow> string \<Rightarrow> json response" where
  "failure_response code body =
     \<lparr>ok = False, status = code, body_text = body, body_json = Inl ''Unexpected token''\<rparr>"

definition unreadable_success :: "json response" where
  \<comment> \<open>A success status with an empty body.\<close>
  "unreadable_success =
     \<lparr>ok = True, status = 201, body_text = [], body_json = Inl ''Unexpected end of JSON input''\<rparr>"

definition created_booking :: json where
  "created_booking = JObject [(''id'', JString ''b-1'')]"

definition other_answer :: api_data where
  "other_answer = Times
     [(''boat-2'', Some
        [\<lparr>api_startTime = Some ''2025-07-15T09:00:00Z'', api_endTime = None\<rparr>])]"

definition other_slots :: "time_slot list" where
  "other_slots = [\<lparr>startTime = ''2025-07-15T09:00:00Z'', endTime = None, resourceId = ''boat-2''\<rparr>]"

definition initial_state :: component_state where
  "initial_state = example_state\<lparr>availableSlots := Map.empty, loading := True\<rparr>"

text \<open>
  A run with a stale fetch.  The effect runs when the component is mounted and requests
  the times of Service 1; a change of a property among its dependencies makes it run
  again, for Service 1 still.  The first request settles, which clears \<^verbatim>\<open>loading\<close>
  and enables the selector; the user picks Service 2, whose request settles; then the
  second request for Service 1 settles.
\<close>

definition stale_run :: component_state where
  "stale_run =
     (let mounted = fst (availability_effect default_config initial_state);
          retriggered = fst (availability_effect default_config mounted);
          first_settled =
            fetchAvailability_settle example_times (Responded (ok_response example_answer)) retriggered;
          switched = select_service default_config ''Service 2'' first_settled;
          new_settled =
            fetchAvailability_settle example_times (Responded (ok_response other_answer)) switched
      in fetchAvailability_settle example_times (Responded (ok_response example_answer)) new_settled)"

definition example_slot :: time_slot where
  "example_slot = \<lparr>startTime = ''2025-07-14T08:00:00Z'', endTime = Some ''2025-07-14T10:00:00Z'',
                    resourceId = ''boat-1''\<rparr>"

definition filled_info :: customer_info where
  "filled_info =
     \<lparr>field_value = (\<lambda>f. case f of
          FirstName \<Rightarrow> ''Ada'' | LastName \<Rightarrow> ''Lovelace'' | Email \<Rightarrow> ''Ada@Example.COM''
        | Phone \<Rightarrow> ''0123456789'' | _ \<Rightarrow> []),
      accepted = (\<lambda>c. c = Terms)\<rparr>"

definition form_state :: component_state where
  "form_state = example_state\<lparr>selectedDate := Some ''2025-07-14'', selectedTimeSlot := Some example_slot,
                              showBookingForm := True, customerInfo := filled_info\<rparr>"

definition example_now :: string where
  "example_now = ''2025-07-10T07:30:00.000Z''"

definition blank_email_state :: component_state where
  "blank_email_state = form_state\<lparr>customerInfo :=
     filled_info\<lparr>field_value := (field_value filled_info)(Email := [])\<rparr>\<rparr>"

definition spaces_name_state :: component_state where
  "spaces_name_state = form_state\<lparr>customerInfo :=
     filled_info\<lparr>field_value := (field_value filled_info)(FirstName := ''  '')\<rparr>\<rparr>"

definition has_at_sign :: "string \<Rightarrow> bool" where
  \<comment> \<open>A stand-in for the browser's reading of an e-mail address in the samples: it
      accepts the address of \<open>filled_info\<close> and refuses a text without an at sign.\<close>
  "has_at_sign s = (CHR ''@'' \<in> set s)"

definition address_config :: "nat config" where
  "address_config = default_config\<lparr>formFields :=
     default_formFields(Address := \<lparr>show' = True, required = False, label = ''Adresse''\<rparr>)\<rparr>"

definition blank_address_state :: component_state where
  "blank_address_state = form_state\<lparr>customerInfo :=
     filled_info\<lparr>field_value := (field_value filled_info)(Address := '' '')\<rparr>\<rparr>"

section \<open>Normalisation: grouping by date and order within a date\<close>

lemma mset_sort_insert: "mset (sort_insert cmp x ys) = add_mset x (mset ys)"
  by (induction ys) auto

lemma mset_array_sort: "mset (array_sort cmp xs) = mset xs"
  unfolding array_sort_def by (induction xs) (auto simp: mset_sort_insert)

lemma set_array_sort: "set (array_sort cmp xs) = set xs"
  using mset_array_sort [of cmp xs] by (metis set_mset_mset)

lemma array_sort_Nil_iff: "array_sort cmp xs = [] \<longleftrightarrow> xs = []"
  using mset_array_sort [of cmp xs] by (metis mset_zero_iff)

lemma push_slot_inv:
  "avail_inv m \<Longrightarrow> push_slot rid m slot = Inr m' \<Longrightarrow> avail_inv m'"
  unfolding push_slot_def avail_inv_def
  by (auto simp: Let_def slot_date_def split: option.splits if_splits) (metis+)

lemma push_slot_slots_at:
  "push_slot rid m slot = Inr m' \<Longrightarrow>
   slots_at m' d = slots_at m d @ filter (\<lambda>s. slot_date s = d) (returned_slots_of rid [slot])"
  unfolding push_slot_def slots_at_def
  by (auto simp: Let_def slot_date_def split: option.splits if_splits)

lemma returned_slots_of_Cons:
  "returned_slots_of rid (slot # slots) = returned_slots_of rid [slot] @ returned_slots_of rid slots"
  by (simp split: option.splits)

lemma group_slots_inv:
  "avail_inv m \<Longrightarrow> group_slots rid m slots = Inr m' \<Longrightarrow> avail_inv m'"
  by (induction slots arbitrary: m) (auto split: sum.splits dest: push_slot_inv)

lemma group_slots_slots_at:
  "group_slots rid m slots = Inr m' \<Longrightarrow>
   slots_at m' d = slots_at m d @ filter (\<lambda>s. slot_date s = d) (returned_slots_of rid slots)"
proof (induction slots arbitrary: m)
  case Nil
  then show ?case by simp
next
  case (Cons slot slots)
  from Cons.prems obtain m1 where p: "push_slot rid m slot = Inr m1"
    and g: "group_slots rid m1 slots = Inr m'"
    by (auto split: sum.splits)
  show ?case
    using Cons.IH [OF g] push_slot_slots_at [OF p, of d]
    by (subst returned_slots_of_Cons) simp
qed

lemma group_resources_inv:
  "avail_inv m \<Longrightarrow> group_resources m es = Inr m' \<Longrightarrow> avail_inv m'"
  by (induction m es rule: group_resources.induct) (auto split: sum.splits dest: group_slots_inv)

lemma group_resources_slots_at:
  "group_resources m es = Inr m' \<Longrightarrow>
   slots_at m' d = slots_at m d @ filter (\<lambda>s. slot_date s = d) (returned_entries es)"
proof (induction m es arbitrary: m' rule: group_resources.induct)
  case (1 m)
  then show ?case by simp
next
  case (2 m rid es)
  then show ?case by simp
next
  case (3 m rid slots es)
  from "3.prems" obtain m1 where g: "group_slots rid m slots = Inr m1"
    and r: "group_resources m1 es = Inr m'"
    by (auto split: sum.splits)
  show ?case
    using "3.IH" [OF g r] group_slots_slots_at [OF g, of d] by simp
qed

lemma avail_inv_empty: "avail_inv Map.empty"
  by (simp add: avail_inv_def)

lemma sort_each_date_inv: "avail_inv m \<Longrightarrow> avail_inv (sort_each_date getTime m)"
  unfolding avail_inv_def sort_each_date_def
  by (auto simp: set_array_sort array_sort_Nil_iff)

lemma normalize_inv: "normalizeAvailability getTime apiData = Inr m \<Longrightarrow> avail_inv m"
  unfolding normalizeAvailability_def
  by (auto split: api_data.splits sum.splits
      intro: sort_each_date_inv group_resources_inv [OF avail_inv_empty] avail_inv_empty)

text \<open>The stored list of a date is the sorted list of the returned slots of that date.\<close>

lemma normalize_lookup:
  assumes "normalizeAvailability getTime apiData = Inr m"
  shows "m d = (let ss = filter (\<lambda>s. slot_date s = d) (returned_slots apiData)
                in if ss = [] then None else Some (array_sort (compareSlots getTime) ss))"
proof (cases apiData)
  case NoTimes
  with assms show ?thesis
    by (auto simp: normalizeAvailability_def returned_slots_def)
next
  case (Times es)
  with assms obtain g where g: "group_resources Map.empty es = Inr g"
    and m: "m = sort_each_date getTime g"
    by (auto simp: normalizeAvailability_def split: sum.splits)
  have inv: "avail_inv g" using group_resources_inv [OF avail_inv_empty g] .
  have l: "slots_at g d = filter (\<lambda>s. slot_date s = d) (returned_entries es)"
    using group_resources_slots_at [OF g, of d] by (simp add: slots_at_def)
  show ?thesis
  proof (cases "g d")
    case None
    with l m Times show ?thesis
      by (simp add: slots_at_def sort_each_date_def returned_slots_def)
  next
    case (Some xs)
    with inv have "xs \<noteq> []" by (auto simp: avail_inv_def)
    with Some l m Times show ?thesis
      by (simp add: slots_at_def sort_each_date_def returned_slots_def Let_def)
  qed
qed

lemma sort_insert_sorted:
  assumes "\<forall>s \<in> set (x # ys). getTime (startTime s) \<noteq> None"
      and "sorted_wrt (time_le getTime) ys"
  shows "sorted_wrt (time_le getTime) (sort_insert (compareSlots getTime) x ys)"
  using assms
proof (induction ys)
  case Nil
  then show ?case by simp
next
  case (Cons y ys)
  have s: "set (sort_insert (compareSlots getTime) x ys) = insert x (set ys)"
    using mset_sort_insert [of "compareSlots getTime" x ys]
    by (metis set_mset_add_mset_insert set_mset_mset)
  obtain tx ty where tx: "getTime (startTime x) = Some tx" and ty: "getTime (startTime y) = Some ty"
    using Cons.prems(1) by auto
  show ?case
  proof (cases "compareSlots getTime x y \<le> 0")
    case True
    then have xy: "time_le getTime x y" by (simp add: compareSlots_def time_le_def tx ty)
    have "\<forall>z \<in> set ys. time_le getTime x z"
    proof
      fix z assume z: "z \<in> set ys"
      then obtain tz where tz: "getTime (startTime z) = Some tz" using Cons.prems(1) by auto
      from z Cons.prems(2) have "time_le getTime y z" by simp
      with xy show "time_le getTime x z" by (simp add: time_le_def tx ty tz)
    qed
    with True xy Cons.prems(2) show ?thesis by simp
  next
    case False
    then have yx: "time_le getTime y x" by (simp add: compareSlots_def time_le_def tx ty)
    have "sorted_wrt (time_le getTime) (sort_insert (compareSlots getTime) x ys)"
      using Cons.IH Cons.prems by simp
    with False yx Cons.prems(2) show ?thesis by (simp add: s)
  qed
qed

lemma array_sort_sorted:
  "\<forall>s \<in> set xs. getTime (startTime s) \<noteq> None \<Longrightarrow>
   sorted_wrt (time_le getTime) (array_sort (compareSlots getTime) xs)"
proof (induction xs)
  case Nil
  then show ?case by (simp add: array_sort_def)
next
  case (Cons x xs)
  have "sorted_wrt (time_le getTime) (array_sort (compareSlots getTime) xs)"
    using Cons by simp
  moreover have "\<forall>s \<in> set (x # array_sort (compareSlots getTime) xs). getTime (startTime s) \<noteq> None"
    using Cons.prems by (simp add: set_array_sort)
  ultimately have "sorted_wrt (time_le getTime)
      (sort_insert (compareSlots getTime) x (array_sort (compareSlots getTime) xs))"
    by (rule sort_insert_sorted [rotated])
  then show ?case by (simp add: array_sort_def)
qed

lemma example_normalized:
  "normalizeAvailability example_times example_answer = Inr (sort_each_date example_times example_grouped)"
  by (simp add: normalizeAvailability_def example_answer_def example_grouped_def push_slot_def
      split_T_first_def object_prototype_keys_def)

lemma example_lookup:
  "sort_each_date example_times example_grouped ''2025-07-14'' = Some example_sorted"
  by (simp add: sort_each_date_def example_grouped_def array_sort_def compareSlots_def
      example_times_def example_sorted_def)

text \<open>
  Claim C7.  When the normalisation of a provider answer succeeds and every returned
  start time is a valid date, every returned slot is stored under the text of its
  \<^verbatim>\<open>startTime\<close> before the first \<^verbatim>\<open>T\<close> (no conversion of time zone), and the list
  stored under a date holds exactly the returned slots of that date, in ascending order
  of start time.
\<close>

theorem availability_grouped_and_sorted:
  assumes "normalizeAvailability getTime apiData = Inr m"
      and "\<forall>s \<in> set (returned_slots apiData). getTime (startTime s) \<noteq> None"
  shows "(\<forall>s \<in> set (returned_slots apiData). \<exists>xs. m (slot_date s) = Some xs \<and> s \<in> set xs) \<and>
         (\<forall>d xs. m d = Some xs \<longrightarrow>
            mset xs = mset (filter (\<lambda>s. slot_date s = d) (returned_slots apiData)) \<and>
            sorted_wrt (time_le getTime) xs)"
proof (intro conjI ballI allI impI)
  fix s assume s: "s \<in> set (returned_slots apiData)"
  let ?ss = "filter (\<lambda>t. slot_date t = slot_date s) (returned_slots apiData)"
  from s have ne: "?ss \<noteq> []" by (auto simp: filter_empty_conv)
  from s have "s \<in> set (array_sort (compareSlots getTime) ?ss)" by (simp add: set_array_sort)
  with ne normalize_lookup [OF assms(1), of "slot_date s"]
  show "\<exists>xs. m (slot_date s) = Some xs \<and> s \<in> set xs" by (simp add: Let_def)
next
  fix d xs assume mx: "m d = Some xs"
  let ?ss = "filter (\<lambda>t. slot_date t = d) (returned_slots apiData)"
  from mx normalize_lookup [OF assms(1), of d]
  have xs: "xs = array_sort (compareSlots getTime) ?ss"
    by (auto simp: Let_def split: if_splits)
  show "mset xs = mset ?ss" by (simp add: xs mset_array_sort)
  have "\<forall>s \<in> set ?ss. getTime (startTime s) \<noteq> None" using assms(2) by simp
  then show "sorted_wrt (time_le getTime) xs" unfolding xs by (rule array_sort_sorted)
qed

text \<open>
  The example of the specification: start times 10:00, 08:00 and 14:00 on one date are
  stored as 08:00, 10:00, 14:00.
\<close>

theorem availability_grouped_and_sorted_witness:
  "normalizeAvailability example_times example_answer =
     Inr (sort_each_date example_times example_grouped) \<and>
   sort_each_date example_times example_grouped ''2025-07-14'' = Some example_sorted \<and>
   map startTime example_sorted =
     [''2025-07-14T08:00:00Z'', ''2025-07-14T10:00:00Z'', ''2025-07-14T14:00:00Z''] \<and>
   sorted_wrt (time_le example_times) example_sorted"
proof -
  have v: "\<forall>s \<in> set (returned_slots example_answer). example_times (startTime s) \<noteq> None"
    by (simp add: returned_slots_def example_answer_def example_times_def)
  have s: "sorted_wrt (time_le example_times) example_sorted"
    using availability_grouped_and_sorted
      [OF example_normalized v, THEN conjunct2, rule_format, OF example_lookup]
    by (rule conjunct2)
  have m: "map startTime example_sorted =
      [''2025-07-14T08:00:00Z'', ''2025-07-14T10:00:00Z'', ''2025-07-14T14:00:00Z'']"
    by (simp add: example_sorted_def)
  from example_normalized example_lookup m s show ?thesis by (intro conjI)
qed

text \<open>
  The map of the component keeps the invariant whatever a fetch settles with: a failed
  fetch leaves the map as it was.
\<close>

lemma settle_keeps_invariant:
  "avail_inv (availableSlots st) \<Longrightarrow>
   avail_inv (availableSlots (fetchAvailability_settle getTime outcome st))"
  by (auto simp: fetchAvailability_settle_def fetch_failed_def
      split: fetch_outcome.splits sum.splits dest: normalize_inv)

text \<open>
  Claim C10.  In every map that the normalisation of a provider answer produces, each
  date that is a key holds a list that is not empty, and each slot of that list has a
  \<^verbatim>\<open>startTime\<close> whose text before the first \<^verbatim>\<open>T\<close> is that key; a date without a
  slot is no key of the map.
\<close>

theorem availability_map_invariant:
  assumes "normalizeAvailability getTime apiData = Inr m" and "m d = Some xs"
  shows "xs \<noteq> [] \<and> (\<forall>s \<in> set xs. split_T_first (startTime s) = d)"
  using normalize_inv [OF assms(1)] assms(2) by (auto simp: avail_inv_def slot_date_def)

theorem availability_map_invariant_witness:
  "normalizeAvailability example_times example_answer =
     Inr (sort_each_date example_times example_grouped) \<and>
   sort_each_date example_times example_grouped ''2025-07-14'' = Some example_sorted \<and>
   example_sorted \<noteq> [] \<and>
   list_all (\<lambda>s. split_T_first (startTime s) = ''2025-07-14'') example_sorted"
proof -
  have i: "example_sorted \<noteq> [] \<and>
      list_all (\<lambda>s. split_T_first (startTime s) = ''2025-07-14'') example_sorted"
    using availability_map_invariant [OF example_normalized example_lookup]
    unfolding list_all_iff .
  from example_normalized example_lookup i [THEN conjunct1] i [THEN conjunct2]
  show ?thesis by (intro conjI)
qed

section \<open>The calendar grid: availability, past dates and selection\<close>

lemma add_days_in_month:
  "getDate d + n \<le> days_in_month (getFullYear d) (getMonth d) \<Longrightarrow>
   add_days n d = d\<lparr>getDate := getDate d + n\<rparr>"
proof (induction n arbitrary: d)
  case 0
  then show ?case by simp
next
  case (Suc n)
  have "add_days n (next_day d) = (next_day d)\<lparr>getDate := getDate (next_day d) + n\<rparr>"
    using Suc.prems by (intro Suc.IH) (simp add: next_day_def)
  with Suc.prems show ?case by (simp add: next_day_def)
qed

lemma days_in_month_pos: "1 \<le> days_in_month y m"
  by (simp add: days_in_month_def)

lemma new_Date_valid:
  assumes "m < 12" "1 \<le> d" "d \<le> days_in_month y m"
  shows "new_Date y m d = \<lparr>getFullYear = y, getMonth = m, getDate = d, ms_of_day = 0\<rparr>"
proof -
  let ?first = "\<lparr>getFullYear = y, getMonth = m, getDate = 1, ms_of_day = 0\<rparr>"
  have "add_days (d - 1) ?first = ?first\<lparr>getDate := getDate ?first + (d - 1)\<rparr>"
    using assms by (intro add_days_in_month) simp
  with assms show ?thesis by (simp add: new_Date_def)
qed

lemma new_Date_last_day:
  assumes "m < 12"
  shows "getDate (new_Date y (m + 1) 0) = days_in_month y m"
proof (cases "m = 11")
  case True
  then show ?thesis by (simp add: new_Date_def prev_day_def days_in_month_def)
next
  case False
  with assms have "m + 1 < 12" by simp
  then show ?thesis by (simp add: new_Date_def prev_day_def)
qed

text \<open>The comparison of the two midnights is the comparison of the calendar dates.\<close>

lemma isDateInPast_iff:
  assumes "valid_date today" "valid_date d"
  shows "isDateInPast today d \<longleftrightarrow> calendar_before d today"
proof -
  have t: "new_Date (getFullYear today) (getMonth today) (getDate today) =
      \<lparr>getFullYear = getFullYear today, getMonth = getMonth today, getDate = getDate today, ms_of_day = 0\<rparr>"
    using assms(1) by (intro new_Date_valid) (simp_all add: valid_date_def)
  have c: "new_Date (getFullYear d) (getMonth d) (getDate d) =
      \<lparr>getFullYear = getFullYear d, getMonth = getMonth d, getDate = getDate d, ms_of_day = 0\<rparr>"
    using assms(2) by (intro new_Date_valid) (simp_all add: valid_date_def)
  show ?thesis
    by (simp add: isDateInPast_def t c date_less_def calendar_before_def)
qed

lemma valid_next_day: "valid_date d \<Longrightarrow> valid_date (next_day d)"
  using days_in_month_pos [of "getFullYear d" "getMonth d + 1"]
    days_in_month_pos [of "getFullYear d + 1" 0]
  by (auto simp: valid_date_def next_day_def)

lemma valid_add_days: "valid_date d \<Longrightarrow> valid_date (add_days n d)"
  by (induction n arbitrary: d) (auto intro: valid_next_day)

text \<open>Every day cell of either view is built by \<open>day_of\<close> from a date of the calendar.\<close>

lemma generated_day_cells:
  assumes "Day c \<in> set (generateCalendarDays cfg today st)"
      and "valid_date (currentWeekStart st)" and "currentMonth st < 12"
  shows "\<exists>d. valid_date d \<and> c = day_of (availableSlots st) today d"
proof (cases "calendarView cfg = ''week''")
  case True
  with assms(1) obtain i where "c = day_of (availableSlots st) today (add_days i (currentWeekStart st))"
    by (auto simp: generateCalendarDays_def)
  with valid_add_days [OF assms(2)] show ?thesis by blast
next
  case False
  let ?y = "currentYear st" and ?m = "currentMonth st"
  from False assms(1) obtain n where n: "1 \<le> n" "n < getDate (new_Date ?y (?m + 1) 0) + 1"
    and c: "c = day_of (availableSlots st) today (new_Date ?y ?m n)"
    by (auto simp: generateCalendarDays_def Let_def)
  from n have le: "n \<le> days_in_month ?y ?m"
    using new_Date_last_day [OF assms(3), of ?y] by simp
  have "valid_date (new_Date ?y ?m n)"
    using n(1) le assms(3) by (simp add: new_Date_valid valid_date_def)
  with c show ?thesis by blast
qed

lemma slots_at_nonempty: "slots_at m k \<noteq> [] \<longleftrightarrow> (\<exists>xs. m k = Some xs \<and> xs \<noteq> [])"
  by (auto simp: slots_at_def split: option.splits)

lemma format_example_monday: "formatDateString example_monday = ''2025-07-14''"
  by (simp add: formatDateString_def example_monday_def show_int_def show_nat.simps digit_char_def
      padStart2_def)

lemma example_cell_generated:
  "Day (day_of (availableSlots example_state) example_today example_monday)
     \<in> set (generateCalendarDays (default_config\<lparr>calendarView := ''week''\<rparr>) example_today example_state)"
proof -
  have "[0..<7] = [0, 1, 2, 3, 4, 5, 6 :: nat]" by (simp add: upt_rec)
  then show ?thesis by (simp add: generateCalendarDays_def example_state_def)
qed

text \<open>
  Claim C8.  For every day cell of the grid, in the week view and in the month view, with
  the clock and the week anchor reading dates of the calendar and the month anchor a
  month: the cell is available iff the map holds a list that is not empty under the
  date of the cell; it is past iff its calendar date is strictly before that of the
  clock, the time of day ignored; and a click on it selects its date iff it is available
  and not past, and changes nothing otherwise.
\<close>

theorem calendar_cell_flags:
  assumes "Day c \<in> set (generateCalendarDays cfg today st)"
      and "valid_date today" and "valid_date (currentWeekStart st)" and "currentMonth st < 12"
  shows "(isDateAvailable c \<longleftrightarrow>
            (\<exists>xs. availableSlots st (formatDateString (cell_date c)) = Some xs \<and> xs \<noteq> [])) \<and>
         (isPastDate c \<longleftrightarrow> calendar_before (cell_date c) today) \<and>
         (\<forall>s. cell_onClick (Day c) s =
            (if isDateAvailable c \<and> \<not> isPastDate c
             then handleDateSelection (formatDateString (cell_date c)) s else s))"
proof -
  from generated_day_cells [OF assms(1,3,4)] obtain d
    where d: "valid_date d" and c: "c = day_of (availableSlots st) today d" by blast
  have "isPastDate c \<longleftrightarrow> calendar_before (cell_date c) today"
    using isDateInPast_iff [OF assms(2) d] by (simp add: c day_of_def Let_def)
  moreover have "isDateAvailable c \<longleftrightarrow>
      (\<exists>xs. availableSlots st (formatDateString (cell_date c)) = Some xs \<and> xs \<noteq> [])"
    by (simp add: c day_of_def Let_def slots_at_nonempty)
  moreover have "\<forall>s. cell_onClick (Day c) s =
      (if isDateAvailable c \<and> \<not> isPastDate c
       then handleDateSelection (formatDateString (cell_date c)) s else s)"
    by (simp add: cell_onClick_def c day_of_def Let_def)
  ultimately show ?thesis by blast
qed

theorem calendar_cell_flags_witness:
  "Day (day_of (availableSlots example_state) example_today example_monday)
     \<in> set (generateCalendarDays (default_config\<lparr>calendarView := ''week''\<rparr>) example_today example_state) \<and>
   isDateAvailable (day_of (availableSlots example_state) example_today example_monday) \<and>
   \<not> isPastDate (day_of (availableSlots example_state) example_today example_monday) \<and>
   cell_onClick (Day (day_of (availableSlots example_state) example_today example_monday)) example_state =
     handleDateSelection ''2025-07-14'' example_state"
proof -
  let ?c = "day_of (availableSlots example_state) example_today example_monday"
  have v: "valid_date example_today" "valid_date (currentWeekStart example_state)"
    "currentMonth example_state < 12"
    by (simp_all add: valid_date_def example_today_def example_state_def example_monday_def
        days_in_month_def)
  note f = calendar_cell_flags [OF example_cell_generated v]
  have d: "cell_date ?c = example_monday" by (simp add: day_of_def Let_def)
  have sl: "availableSlots example_state ''2025-07-14'' = Some example_sorted"
    by (simp add: example_state_def)
  have "\<exists>xs. availableSlots example_state ''2025-07-14'' = Some xs \<and> xs \<noteq> []"
    by (simp add: sl example_sorted_def)
  then have a: "isDateAvailable ?c"
    using f [THEN conjunct1] by (simp add: d format_example_monday)
  have "\<not> calendar_before example_monday example_today"
    by (simp add: calendar_before_def example_today_def example_monday_def)
  then have p: "\<not> isPastDate ?c"
    using f [THEN conjunct2, THEN conjunct1] by (simp add: d)
  have "cell_onClick (Day ?c) example_state = handleDateSelection ''2025-07-14'' example_state"
    using f [THEN conjunct2, THEN conjunct2, rule_format, of example_state] a p
    by (simp add: d format_example_monday)
  with a p example_cell_generated show ?thesis by (intro conjI)
qed

section \<open>Overlapping fetches and the switch of service\<close>

lemma other_normalized:
  "normalizeAvailability example_times other_answer =
     Inr (sort_each_date example_times [''2025-07-15'' \<mapsto> other_slots])"
  by (simp add: normalizeAvailability_def other_answer_def other_slots_def push_slot_def
      split_T_first_def object_prototype_keys_def)

lemma default_services_active: "length (activeServices default_config) \<noteq> 0"
  by (simp add: activeServices_def default_config_def example_service_def)

text \<open>
  Claim C1, as amended.  A fetch that settles with a successful answer stores the
  normalisation of that answer as the map, in whatever state of the component it
  settles and whatever was requested or stored meanwhile, and leaves the selected
  service as it is: among overlapping fetches the last to settle decides the map.
\<close>

theorem settled_fetch_overwrites:
  assumes "ok r" and "body_json r = Inr apiData" and "normalizeAvailability getTime apiData = Inr m"
  shows "availableSlots (fetchAvailability_settle getTime (Responded r) st) = m \<and>
         selectedServiceId (fetchAvailability_settle getTime (Responded r) st) = selectedServiceId st"
  using assms by (simp add: fetchAvailability_settle_def)

theorem settled_fetch_overwrites_witness:
  "availableSlots (fetchAvailability_settle example_times (Responded (ok_response example_answer))
      (example_state\<lparr>selectedServiceId := ''Service 2'',
                     availableSlots := [''2025-07-15'' \<mapsto> other_slots]\<rparr>))
     ''2025-07-14'' = Some example_sorted"
proof -
  have "ok (ok_response example_answer)" "body_json (ok_response example_answer) = Inr example_answer"
    by (simp_all add: ok_response_def)
  from settled_fetch_overwrites [OF this example_normalized] show ?thesis
    by (simp add: example_lookup)
qed

text \<open>
  The claim as stated fails on \<open>stale_run\<close>: the request for Service 1 that was sent
  before the request for Service 2 settles after it, and the map then holds the slots
  of Service 1 and none of Service 2, which is the selected service.
\<close>

theorem stale_fetch_counterexample:
  "selectedServiceId stale_run = ''Service 2'' \<and>
   availableSlots stale_run ''2025-07-14'' = Some example_sorted \<and>
   availableSlots stale_run ''2025-07-15'' = None \<and>
   normalizeAvailability example_times other_answer =
     Inr (sort_each_date example_times [''2025-07-15'' \<mapsto> other_slots]) \<and>
   sort_each_date example_times [''2025-07-15'' \<mapsto> other_slots] ''2025-07-15'' = Some other_slots \<and>
   sort_each_date example_times [''2025-07-15'' \<mapsto> other_slots] ''2025-07-14'' = None"
proof -
  have s1: "selectedServiceId stale_run = ''Service 2''"
    using default_services_active
    by (simp add: stale_run_def Let_def availability_effect_def initial_state_def example_state_def
        fetchAvailability_begin_def fetchAvailability_settle_def ok_response_def example_normalized
        other_normalized select_service_def setSelectedServiceId_def)
  have s2: "availableSlots stale_run = sort_each_date example_times example_grouped"
    by (simp add: stale_run_def Let_def fetchAvailability_settle_def ok_response_def example_normalized)
  have s3: "sort_each_date example_times example_grouped ''2025-07-15'' = None"
    by (simp add: sort_each_date_def example_grouped_def)
  have o: "sort_each_date example_times [''2025-07-15'' \<mapsto> other_slots] ''2025-07-15'' = Some other_slots"
    "sort_each_date example_times [''2025-07-15'' \<mapsto> other_slots] ''2025-07-14'' = None"
    by (simp_all add: sort_each_date_def other_slots_def array_sort_def)
  show ?thesis
    using s1 s3 o other_normalized by (simp add: s2 example_lookup)
qed

text \<open>
  Claim C2, as amended.  Picking another service while nothing is loading keeps the map
  as it is; it sets \<^verbatim>\<open>loading\<close>, and with \<^verbatim>\<open>loading\<close> set the grid shows the loading
  state in place of the day cells.
\<close>

theorem service_switch_keeps_map:
  assumes "\<not> loading st" and "sid \<noteq> []" and "sid \<noteq> selectedServiceId st"
      and "activeServices cfg \<noteq> []"
  shows "availableSlots (select_service cfg sid st) = availableSlots st \<and>
         selectedServiceId (select_service cfg sid st) = sid \<and>
         loading (select_service cfg sid st) \<and>
         calendar_grid cfg today (select_service cfg sid st) = LoadingState"
  using assms
  by (simp add: select_service_def availability_effect_def setSelectedServiceId_def
      fetchAvailability_begin_def calendar_grid_def)

theorem service_switch_keeps_map_witness:
  "availableSlots (select_service default_config ''Service 2'' example_state) =
     availableSlots example_state \<and>
   calendar_grid default_config example_today (select_service default_config ''Service 2'' example_state)
     = LoadingState"
proof -
  have "\<not> loading example_state" "''Service 2'' \<noteq> []"
    "''Service 2'' \<noteq> selectedServiceId example_state"
    by (simp_all add: example_state_def)
  moreover have "activeServices default_config \<noteq> []"
    using default_services_active by simp
  ultimately show ?thesis
    using service_switch_keeps_map [of example_state "''Service 2''" default_config example_today]
    by simp
qed

text \<open>
  The rendering that follows the change of \<^verbatim>\<open>selectedServiceId\<close> comes before the
  effect has run: \<^verbatim>\<open>loading\<close> is not yet set, and the day cells are computed from
  the map as it is.
\<close>

lemma rendering_before_effect:
  assumes "\<not> loading st" and "error st = None" and "activeServices cfg \<noteq> []"
  shows "calendar_grid cfg today (setSelectedServiceId sid st) =
           CalendarDays (generateCalendarDays cfg today st)"
  using assms
  by (simp add: calendar_grid_def setSelectedServiceId_def generateCalendarDays_def)

text \<open>
  The claim as stated fails: after the switch to Service 2 the map still holds the
  slots fetched for Service 1.
\<close>

theorem service_switch_counterexample:
  "selectedServiceId (select_service default_config ''Service 2'' example_state) = ''Service 2'' \<and>
   loading (select_service default_config ''Service 2'' example_state) \<and>
   availableSlots (select_service default_config ''Service 2'' example_state) ''2025-07-14'' =
     Some example_sorted"
  using default_services_active
  by (simp add: select_service_def availability_effect_def setSelectedServiceId_def
      fetchAvailability_begin_def example_state_def)

section \<open>Validation before the submission\<close>

lemma set_all_fields: "f \<in> set all_fields"
  by (cases f) (simp_all add: all_fields_def)

lemma set_all_checkboxes: "c \<in> set all_checkboxes"
  by (cases c) (simp_all add: all_checkboxes_def)

lemma checkbox_control_rendered:
  "CheckboxControl c \<in> set (form_controls cfg) \<longleftrightarrow> show' (checkboxes cfg c)"
  by (cases c) (auto simp: form_controls_def set_all_checkboxes)

lemma find_Some_D: "find P xs = Some x \<Longrightarrow> P x \<and> x \<in> set xs"
  by (induction xs) (auto split: if_splits)

lemma find_None_D: "find P xs = None \<Longrightarrow> x \<in> set xs \<Longrightarrow> \<not> P x"
  by (induction xs) (auto split: if_splits)

lemma find_exists: "x \<in> set xs \<Longrightarrow> P x \<Longrightarrow> \<exists>y. find P xs = Some y"
  by (induction xs) auto

text \<open>
  The handler by itself: an alert of its validation ends it with no request and no
  change of state.  Its validation tests the checkboxes \<^verbatim>\<open>terms\<close> and \<^verbatim>\<open>privacy\<close>
  and the fields; the acceptance of \<^verbatim>\<open>newsletter\<close> has no part in it, so that a
  required \<^verbatim>\<open>newsletter\<close> is enforced by the \<^verbatim>\<open>required\<close> attribute of its control
  alone.
\<close>

lemma handler_rejects:
  "validation_alert cfg st = Some message \<Longrightarrow>
   handleBookingSubmit num cfg now primary fallback st = (st, [Alert message])"
  by (simp add: handleBookingSubmit_def)

lemma newsletter_not_tested_by_handler:
  "validation_alert cfg
     (st\<lparr>customerInfo := (customerInfo st)\<lparr>accepted := (accepted (customerInfo st))(Newsletter := b)\<rparr>\<rparr>)
   = validation_alert cfg st"
  by (simp add: validation_alert_def)

lemma blank_email_reported:
  "form_submit sample_numbers default_config emailSyntax now primary fallback blank_email_state =
     (blank_email_state, [ReportInvalid (FieldControl Email)])"
  by (simp add: form_submit_def form_controls_def default_config_def default_formFields_def
      default_checkboxes_def all_fields_def all_checkboxes_def blank_email_state_def filled_info_def)

lemma spaces_name_alert:
  "form_submit num default_config has_at_sign now primary fallback spaces_name_state =
     (spaces_name_state, [Alert ''Prenom is required''])"
proof -
  have "find (control_invalid default_config has_at_sign (customerInfo spaces_name_state))
      (form_controls default_config) = None"
    by (simp add: form_controls_def default_config_def default_formFields_def
        default_checkboxes_def all_fields_def all_checkboxes_def spaces_name_state_def filled_info_def
        has_at_sign_def)
  moreover have "validation_alert default_config spaces_name_state = Some ''Prenom is required''"
    by (simp add: validation_alert_def default_config_def default_checkboxes_def default_formFields_def
        spaces_name_state_def form_state_def filled_info_def required_fields_def all_fields_def
        trim_def is_space_def)
  ultimately show ?thesis by (simp add: form_submit_def handler_rejects)
qed

text \<open>
  Claim C3.  For every configuration of fields and checkboxes: when a field that is
  shown and required is blank after trimming, or a checkbox (terms, privacy or
  newsletter) that is shown and required is not accepted, the submission of the form
  ends with the state as it was and with one effect, which is no network call and which
  names a failing control: the browser's report of an invalid control or the handler's
  alert for a blank field.
\<close>

theorem submission_gated_by_validation:
  assumes "(\<exists>f. show' (formFields cfg f) \<and> required (formFields cfg f) \<and>
                trim (field_value (customerInfo st) f) = []) \<or>
           (\<exists>c. show' (checkboxes cfg c) \<and> required (checkboxes cfg c) \<and>
                \<not> accepted (customerInfo st) c)"
  shows "\<exists>e. form_submit num cfg emailSyntax now primary fallback st = (st, [e]) \<and>
             names_failure cfg emailSyntax (customerInfo st) e \<and>
             requests (snd (form_submit num cfg emailSyntax now primary fallback st)) = []"
proof (cases "find (control_invalid cfg emailSyntax (customerInfo st)) (form_controls cfg)")
  case (Some c)
  from find_Some_D [OF Some] have "names_failure cfg emailSyntax (customerInfo st) (ReportInvalid c)"
    by simp
  with Some show ?thesis by (simp add: form_submit_def requests_def)
next
  case None
  note valid = find_None_D [OF None]
  have boxes: "\<And>c. show' (checkboxes cfg c) \<Longrightarrow> required (checkboxes cfg c) \<Longrightarrow>
      accepted (customerInfo st) c"
    using valid [of "CheckboxControl _"] by (auto simp: checkbox_control_rendered)
  with assms obtain f where f: "show' (formFields cfg f)" "required (formFields cfg f)"
    "trim (field_value (customerInfo st) f) = []"
    by blast
  then have "f \<in> set (required_fields cfg)"
    by (simp add: required_fields_def set_all_fields)
  from find_exists [OF this, of "\<lambda>f. trim (field_value (customerInfo st) f) = []"] f(3)
  obtain g where g: "find (\<lambda>f. trim (field_value (customerInfo st) f) = []) (required_fields cfg) = Some g"
    by blast
  from find_Some_D [OF g] have gp: "trim (field_value (customerInfo st) g) = []"
    "show' (formFields cfg g)" "required (formFields cfg g)"
    by (simp_all add: required_fields_def)
  have al: "validation_alert cfg st = Some (label (formFields cfg g) @ '' is required'')"
    using boxes g by (auto simp: validation_alert_def)
  have "names_failure cfg emailSyntax (customerInfo st) (Alert (label (formFields cfg g) @ '' is required''))"
    using gp by auto
  with None al show ?thesis
    by (simp add: form_submit_def handler_rejects requests_def)
qed

text \<open>
  With \<^verbatim>\<open>email\<close> required and left empty no booking request is issued: the browser
  reports the control.  A first name of spaces, which the control accepts, is refused by
  the alert of the handler.
\<close>

theorem submission_gated_by_validation_witness:
  "requests (snd (form_submit sample_numbers default_config has_at_sign example_now
       (Responded (ok_response created_booking)) (Responded (ok_response created_booking))
       blank_email_state)) = [] \<and>
   form_submit sample_numbers default_config has_at_sign example_now
       (Responded (ok_response created_booking)) (Responded (ok_response created_booking))
       blank_email_state = (blank_email_state, [ReportInvalid (FieldControl Email)]) \<and>
   requests (snd (form_submit sample_numbers default_config has_at_sign example_now
       (Responded (ok_response created_booking)) (Responded (ok_response created_booking))
       spaces_name_state)) = [] \<and>
   form_submit sample_numbers default_config has_at_sign example_now
       (Responded (ok_response created_booking)) (Responded (ok_response created_booking))
       spaces_name_state = (spaces_name_state, [Alert ''Prenom is required''])"
proof -
  have "show' (formFields default_config Email) \<and> required (formFields default_config Email) \<and>
      trim (field_value (customerInfo blank_email_state) Email) = []"
    by (simp add: default_config_def default_formFields_def blank_email_state_def trim_def)
  then have e: "(\<exists>f. show' (formFields default_config f) \<and> required (formFields default_config f) \<and>
                trim (field_value (customerInfo blank_email_state) f) = []) \<or>
           (\<exists>c. show' (checkboxes default_config c) \<and> required (checkboxes default_config c) \<and>
                \<not> accepted (customerInfo blank_email_state) c)"
    by blast
  have "show' (formFields default_config FirstName) \<and> required (formFields default_config FirstName) \<and>
      trim (field_value (customerInfo spaces_name_state) FirstName) = []"
    by (simp add: default_config_def default_formFields_def spaces_name_state_def trim_def is_space_def)
  then have n: "(\<exists>f. show' (formFields default_config f) \<and> required (formFields default_config f) \<and>
                trim (field_value (customerInfo spaces_name_state) f) = []) \<or>
           (\<exists>c. show' (checkboxes default_config c) \<and> required (checkboxes default_config c) \<and>
                \<not> accepted (customerInfo spaces_name_state) c)"
    by blast
  have r1: "requests (snd (form_submit sample_numbers default_config has_at_sign example_now
       (Responded (ok_response created_booking)) (Responded (ok_response created_booking))
       blank_email_state)) = []"
    using submission_gated_by_validation [OF e, where num = sample_numbers
        and emailSyntax = has_at_sign and now = example_now
        and primary = "Responded (ok_response created_booking)"
        and fallback = "Responded (ok_response created_booking)"]
    by blast
  have r2: "requests (snd (form_submit sample_numbers default_config has_at_sign example_now
       (Responded (ok_response created_booking)) (Responded (ok_response created_booking))
       spaces_name_state)) = []"
    using submission_gated_by_validation [OF n, where num = sample_numbers
        and emailSyntax = has_at_sign and now = example_now
        and primary = "Responded (ok_response created_booking)"
        and fallback = "Responded (ok_response created_booking)"]
    by blast
  from r1 blank_email_reported r2 spaces_name_alert show ?thesis by (intro conjI)
qed

section \<open>The two booking attempts\<close>

lemma form_state_valid: "validation_alert default_config form_state = None"
  by (simp add: validation_alert_def default_config_def default_checkboxes_def default_formFields_def
      form_state_def filled_info_def required_fields_def all_fields_def trim_def is_space_def)

lemma form_state_slot: "selectedTimeSlot form_state = Some example_slot"
  by (simp add: form_state_def)

lemma form_state_service:
  "find (\<lambda>s. service_id s = selectedServiceId form_state) (activeServices default_config)
     = Some example_service"
  by (simp add: activeServices_def default_config_def form_state_def example_state_def
      example_service_def)

lemma failure_response_not_ok: "\<not> ok (failure_response code body)"
  by (simp add: failure_response_def)

text \<open>
  Claim C4, as amended.  Once the validation has passed, with a slot selected and the
  service active: when the request to the client endpoint is answered with a status
  that is not a success, the network calls of the submission are that request and then
  one request to the merchant endpoint, whatever the latter settles with; when the
  request to the client endpoint is rejected (a network error), the submission ends
  with the alert of that error and the client request is its only network call.
\<close>

theorem fallback_after_failed_response:
  assumes "validation_alert cfg st = None" and "selectedTimeSlot st = Some slot"
      and "find (\<lambda>s. service_id s = selectedServiceId st) (activeServices cfg) = Some svc"
  shows "(\<forall>r1. primary = Responded r1 \<and> \<not> ok r1 \<longrightarrow>
            requests (snd (handleBookingSubmit num cfg now primary fallback st)) =
              [PostClient (clientPayload num cfg now st svc slot),
               PostMerchant (merchantPayload num cfg now st svc slot)]) \<and>
         (\<forall>message. primary = Rejected message \<longrightarrow>
            handleBookingSubmit num cfg now primary fallback st =
              (st\<lparr>isBooking := False\<rparr>,
               [PostClient (clientPayload num cfg now st svc slot), Alert (''Error: '' @ message)]))"
  using assms
  by (auto simp: handleBookingSubmit_def Let_def booking_failed_def booking_settled_def requests_def
      split: fetch_outcome.splits sum.splits json.splits option.splits)

theorem fallback_after_failed_response_witness:
  "requests (snd (handleBookingSubmit sample_numbers default_config example_now
       (Responded (failure_response 500 ''unavailable''))
       (Responded (ok_response created_booking)) form_state)) =
     [PostClient (clientPayload sample_numbers default_config example_now form_state example_service example_slot),
      PostMerchant (merchantPayload sample_numbers default_config example_now form_state example_service example_slot)]"
  using fallback_after_failed_response [OF form_state_valid form_state_slot form_state_service,
      THEN conjunct1, rule_format,
      where primary = "Responded (failure_response 500 ''unavailable'')"
        and ?r1.0 = "failure_response 500 ''unavailable''"]
    failure_response_not_ok [of 500 "''unavailable''"]
  by simp

text \<open>
  The claim as stated fails where the first request is rejected: no request goes to the
  merchant endpoint, though that endpoint would have answered with a success.
\<close>

theorem network_error_counterexample:
  "handleBookingSubmit sample_numbers default_config example_now (Rejected ''Failed to fetch'')
      (Responded (ok_response created_booking)) form_state =
     (form_state\<lparr>isBooking := False\<rparr>,
      [PostClient (clientPayload sample_numbers default_config example_now form_state example_service example_slot),
       Alert ''Error: Failed to fetch''])"
  by (simp add: handleBookingSubmit_def form_state_valid form_state_slot form_state_service
      booking_failed_def)

text \<open>
  Claim C5, as amended.  When the client endpoint answers with a status that is not a
  success and the merchant endpoint answers with a success status and a body that is
  JSON and not \<^verbatim>\<open>null\<close>, the stored result reports the attempt
  \<^verbatim>\<open>Merchant API (fallback)\<close>, and the selected date, the selected slot and the
  customer information, fields and acceptance flags, are reset to their initial values.
\<close>

theorem fallback_success:
  assumes "validation_alert cfg st = None" and "selectedTimeSlot st = Some slot"
      and "find (\<lambda>s. service_id s = selectedServiceId st) (activeServices cfg) = Some svc"
      and "\<not> ok r1" and "ok r2" and "body_json r2 = Inr bookingData" and "bookingData \<noteq> JNull"
  shows "(\<exists>res. bookingSuccess (fst (handleBookingSubmit num cfg now (Responded r1) (Responded r2) st))
                 = Some res \<and>
               apiUsed res = ''Merchant API (fallback)'') \<and>
         selectedDate (fst (handleBookingSubmit num cfg now (Responded r1) (Responded r2) st)) = None \<and>
         selectedTimeSlot (fst (handleBookingSubmit num cfg now (Responded r1) (Responded r2) st)) = None \<and>
         customerInfo (fst (handleBookingSubmit num cfg now (Responded r1) (Responded r2) st))
           = empty_customer_info"
  using assms
  by (cases bookingData)
     (simp_all add: handleBookingSubmit_def Let_def booking_settled_def)

theorem fallback_success_witness:
  "map_option apiUsed (bookingSuccess (fst (handleBookingSubmit sample_numbers default_config example_now
       (Responded (failure_response 500 ''unavailable''))
       (Responded (ok_response created_booking)) form_state))) = Some ''Merchant API (fallback)'' \<and>
   selectedDate (fst (handleBookingSubmit sample_numbers default_config example_now
       (Responded (failure_response 500 ''unavailable''))
       (Responded (ok_response created_booking)) form_state)) = None \<and>
   selectedTimeSlot (fst (handleBookingSubmit sample_numbers default_config example_now
       (Responded (failure_response 500 ''unavailable''))
       (Responded (ok_response created_booking)) form_state)) = None \<and>
   customerInfo (fst (handleBookingSubmit sample_numbers default_config example_now
       (Responded (failure_response 500 ''unavailable''))
       (Responded (ok_response created_booking)) form_state)) = empty_customer_info"
proof -
  have k: "ok (ok_response created_booking)"
    "body_json (ok_response created_booking) = Inr created_booking"
    by (simp_all add: ok_response_def)
  have j: "created_booking \<noteq> JNull" by (simp add: created_booking_def)
  from fallback_success [OF form_state_valid form_state_slot form_state_service
      failure_response_not_ok [of 500 "''unavailable''"] k j,
      where num = sample_numbers and now = example_now]
  show ?thesis by auto
qed

text \<open>
  The claim as stated fails where the merchant endpoint answers with a success status
  and a body that is not JSON: no result is stored and the draft stays as entered.
\<close>

theorem fallback_success_counterexample:
  "ok unreadable_success \<and>
   handleBookingSubmit sample_numbers default_config example_now
       (Responded (failure_response 500 ''unavailable'')) (Responded unreadable_success) form_state =
     (form_state\<lparr>isBooking := False\<rparr>,
      [PostClient (clientPayload sample_numbers default_config example_now form_state example_service example_slot),
       PostMerchant (merchantPayload sample_numbers default_config example_now form_state example_service example_slot),
       Alert ''Error: Unexpected end of JSON input'']) \<and>
   bookingSuccess (form_state\<lparr>isBooking := False\<rparr>) = None \<and>
   customerInfo (form_state\<lparr>isBooking := False\<rparr>) = filled_info \<and>
   filled_info \<noteq> empty_customer_info \<and>
   selectedDate (form_state\<lparr>isBooking := False\<rparr>) = Some ''2025-07-14''"
proof -
  have "field_value filled_info FirstName \<noteq> field_value empty_customer_info FirstName"
    by (simp add: filled_info_def empty_customer_info_def)
  then have ne: "filled_info \<noteq> empty_customer_info" by metis
  have h: "handleBookingSubmit sample_numbers default_config example_now
       (Responded (failure_response 500 ''unavailable'')) (Responded unreadable_success) form_state =
     (form_state\<lparr>isBooking := False\<rparr>,
      [PostClient (clientPayload sample_numbers default_config example_now form_state example_service example_slot),
       PostMerchant (merchantPayload sample_numbers default_config example_now form_state example_service example_slot),
       Alert ''Error: Unexpected end of JSON input''])"
    by (simp add: handleBookingSubmit_def form_state_valid form_state_slot form_state_service
        booking_failed_def booking_settled_def failure_response_def unreadable_success_def)
  show ?thesis
    using ne h by (simp add: unreadable_success_def form_state_def example_state_def)
qed

text \<open>
  Claim C6.  When both attempts are made and both are answered with a status that is
  not a success, the submission ends with the alert of an error that embeds the status
  and the body of the second answer, and the state is as before but for
  \<^verbatim>\<open>isBooking\<close>: the selected service, date and slot, the customer information
  and the stored result are unchanged.
\<close>

theorem both_attempts_fail:
  assumes "validation_alert cfg st = None" and "selectedTimeSlot st = Some slot"
      and "find (\<lambda>s. service_id s = selectedServiceId st) (activeServices cfg) = Some svc"
      and "\<not> ok r1" and "\<not> ok r2"
  shows "handleBookingSubmit num cfg now (Responded r1) (Responded r2) st =
           (st\<lparr>isBooking := False\<rparr>,
            [PostClient (clientPayload num cfg now st svc slot),
             PostMerchant (merchantPayload num cfg now st svc slot),
             Alert (''Error: Booking error: '' @ show_nat (status r2) @ '' - '' @ body_text r2)]) \<and>
         selectedDate (fst (handleBookingSubmit num cfg now (Responded r1) (Responded r2) st))
           = selectedDate st \<and>
         selectedTimeSlot (fst (handleBookingSubmit num cfg now (Responded r1) (Responded r2) st))
           = selectedTimeSlot st \<and>
         customerInfo (fst (handleBookingSubmit num cfg now (Responded r1) (Responded r2) st))
           = customerInfo st \<and>
         selectedServiceId (fst (handleBookingSubmit num cfg now (Responded r1) (Responded r2) st))
           = selectedServiceId st \<and>
         bookingSuccess (fst (handleBookingSubmit num cfg now (Responded r1) (Responded r2) st))
           = bookingSuccess st"
  using assms
  by (simp add: handleBookingSubmit_def Let_def booking_failed_def booking_settled_def)

theorem both_attempts_fail_witness:
  "handleBookingSubmit sample_numbers default_config example_now
       (Responded (failure_response 500 ''unavailable''))
       (Responded (failure_response 422 ''slot taken'')) form_state =
     (form_state\<lparr>isBooking := False\<rparr>,
      [PostClient (clientPayload sample_numbers default_config example_now form_state example_service example_slot),
       PostMerchant (merchantPayload sample_numbers default_config example_now form_state example_service example_slot),
       Alert ''Error: Booking error: 422 - slot taken'']) \<and>
   customerInfo (fst (handleBookingSubmit sample_numbers default_config example_now
       (Responded (failure_response 500 ''unavailable''))
       (Responded (failure_response 422 ''slot taken'')) form_state)) = filled_info"
proof -
  have s: "status (failure_response 422 ''slot taken'') = 422"
    "body_text (failure_response 422 ''slot taken'') = ''slot taken''"
    by (simp_all add: failure_response_def)
  have n: "show_nat 422 = ''422''" by (simp add: show_nat.simps digit_char_def)
  have c: "customerInfo form_state = filled_info" by (simp add: form_state_def)
  from both_attempts_fail [OF form_state_valid form_state_slot form_state_service
      failure_response_not_ok [of 500 "''unavailable''"]
      failure_response_not_ok [of 422 "''slot taken''"],
      where num = sample_numbers and now = example_now]
  show ?thesis by (simp add: s n c)
qed

section \<open>The payload of the first request\<close>

lemma blank_address_valid: "validation_alert address_config blank_address_state = None"
  by (simp add: validation_alert_def address_config_def default_config_def default_checkboxes_def
      default_formFields_def blank_address_state_def
      form_state_def filled_info_def required_fields_def all_fields_def trim_def is_space_def)

lemma blank_address_slot: "selectedTimeSlot blank_address_state = Some example_slot"
  by (simp add: blank_address_state_def form_state_def)

lemma blank_address_service:
  "find (\<lambda>s. service_id s = selectedServiceId blank_address_state) (activeServices address_config)
     = Some example_service"
  by (simp add: activeServices_def address_config_def default_config_def blank_address_state_def
      form_state_def example_state_def example_service_def)

text \<open>
  Claim C9, as amended.  The first effect of a submission that passes the validation is
  the request to the client endpoint, and in its payload: the client block holds
  \<^verbatim>\<open>address\<close>, \<^verbatim>\<open>city\<close>, \<^verbatim>\<open>zipCode\<close> or \<^verbatim>\<open>company\<close> iff the field is shown
  and its value as entered is not empty, and then holds the value trimmed; the e-mail
  address is sent trimmed and in lower case; and the total amount of the metadata is
  \<^verbatim>\<open>(basePrice + apaPrice).toString()\<close>, the sum of the two numbers as the language
  adds them in the text that the language gives it, when prices are shown and
  \<^verbatim>\<open>"0"\<close> otherwise.
\<close>

theorem primary_payload_contents:
  assumes "validation_alert cfg st = None" and "selectedTimeSlot st = Some slot"
      and "find (\<lambda>s. service_id s = selectedServiceId st) (activeServices cfg) = Some svc"
  shows "\<exists>p rest. snd (handleBookingSubmit num cfg now primary fallback st) = PostClient p # rest \<and>
           (\<forall>f \<in> {Address, City, ZipCode, Company}.
              optional_of (client p) f =
                (if show' (formFields cfg f) \<and> field_value (customerInfo st) f \<noteq> []
                 then Some (trim (field_value (customerInfo st) f)) else None)) \<and>
           email (client p) = toLowerCase (trim (field_value (customerInfo st) Email)) \<and>
           total_amount (metaData p) =
             (if showPrices cfg then number_toString num (number_add num (basePrice svc) (apaPrice svc))
              else ''0'')"
proof -
  let ?p = "clientPayload num cfg now st svc slot"
  have "\<exists>rest. snd (handleBookingSubmit num cfg now primary fallback st) = PostClient ?p # rest"
    using assms
    by (auto simp: handleBookingSubmit_def Let_def booking_failed_def booking_settled_def
        split: fetch_outcome.splits sum.splits json.splits option.splits)
  moreover have "\<forall>f \<in> {Address, City, ZipCode, Company}.
      optional_of (client ?p) f =
        (if show' (formFields cfg f) \<and> field_value (customerInfo st) f \<noteq> []
         then Some (trim (field_value (customerInfo st) f)) else None)"
    by (simp add: clientPayload_def build_client_def optional_of_def optional_field_def)
  moreover have "email (client ?p) = toLowerCase (trim (field_value (customerInfo st) Email))"
    by (simp add: clientPayload_def build_client_def)
  moreover have "total_amount (metaData ?p) =
      (if showPrices cfg then number_toString num (number_add num (basePrice svc) (apaPrice svc))
              else ''0'')"
    by (simp add: clientPayload_def total_amount_of_def)
  ultimately show ?thesis by blast
qed

lemma form_state_effects:
  "snd (handleBookingSubmit sample_numbers default_config example_now
        (Responded (ok_response created_booking)) (Rejected ''unused'') form_state)
     = [PostClient (clientPayload sample_numbers default_config example_now form_state example_service example_slot)]"
  by (simp add: handleBookingSubmit_def form_state_valid form_state_slot form_state_service
      booking_settled_def ok_response_def created_booking_def Let_def js_or_def opt_chain_def)

theorem primary_payload_contents_witness:
  "snd (handleBookingSubmit sample_numbers default_config example_now
        (Responded (ok_response created_booking)) (Rejected ''unused'') form_state)
     = [PostClient (clientPayload sample_numbers default_config example_now form_state example_service example_slot)] \<and>
   address (client (clientPayload sample_numbers default_config example_now form_state example_service example_slot))
     = None \<and>
   email (client (clientPayload sample_numbers default_config example_now form_state example_service example_slot))
     = ''ada@example.com'' \<and>
   total_amount (metaData (clientPayload sample_numbers default_config example_now form_state example_service example_slot))
     = ''400''"
proof -
  let ?cp = "clientPayload sample_numbers default_config example_now form_state example_service example_slot"
  from primary_payload_contents [OF form_state_valid form_state_slot form_state_service,
      where num = sample_numbers and now = example_now
        and primary = "Responded (ok_response created_booking)" and fallback = "Rejected ''unused''"]
  obtain p rest where h: "snd (handleBookingSubmit sample_numbers default_config example_now
        (Responded (ok_response created_booking)) (Rejected ''unused'') form_state)
        = PostClient p # rest"
    and o: "\<forall>f \<in> {Address, City, ZipCode, Company}.
              optional_of (client p) f =
                (if show' (formFields default_config f) \<and> field_value (customerInfo form_state) f \<noteq> []
                 then Some (trim (field_value (customerInfo form_state) f)) else None)"
    and e: "email (client p) = toLowerCase (trim (field_value (customerInfo form_state) Email))"
    and t: "total_amount (metaData p) =
             (if showPrices default_config
              then number_toString sample_numbers
                     (number_add sample_numbers (basePrice example_service) (apaPrice example_service))
              else ''0'')"
    by blast
  from h have p: "p = ?cp" by (simp add: form_state_effects)
  have "optional_of (client p) Address = None"
    using o by (simp add: default_config_def default_formFields_def)
  then have a: "address (client ?cp) = None"
    by (simp add: p optional_of_def)
  have "toLowerCase ''Ada@Example.COM'' = ''ada@example.com''"
    by code_simp
  then have "email (client p) = ''ada@example.com''"
    using e by (simp add: form_state_def filled_info_def trim_def is_space_def)
  then have m: "email (client ?cp) = ''ada@example.com''"
    by (simp add: p)
  have "total_amount (metaData p) = ''400''"
    using t
    by (simp add: default_config_def example_service_def sample_numbers_def show_nat.simps
        digit_char_def)
  then have n: "total_amount (metaData ?cp) = ''400''"
    by (simp add: p)
  from form_state_effects a m n show ?thesis by (intro conjI)
qed

text \<open>
  The claim as stated fails for a shown field whose value is a space: the value is not
  empty, so the client block holds the property, with the empty text that trimming
  leaves.
\<close>

theorem primary_payload_counterexample:
  "show' (formFields address_config Address) \<and>
   trim (field_value (customerInfo blank_address_state) Address) = [] \<and>
   snd (handleBookingSubmit sample_numbers address_config example_now
        (Responded (ok_response created_booking)) (Rejected ''unused'') blank_address_state) =
     [PostClient (clientPayload sample_numbers address_config example_now blank_address_state example_service example_slot)] \<and>
   address (client (clientPayload sample_numbers address_config example_now blank_address_state example_service example_slot))
     = Some []"
proof -
  have a: "show' (formFields address_config Address)"
    by (simp add: address_config_def default_config_def)
  have t: "trim (field_value (customerInfo blank_address_state) Address) = []"
    by (simp add: blank_address_state_def trim_def is_space_def)
  have v: "field_value (customerInfo blank_address_state) Address \<noteq> []"
    by (simp add: blank_address_state_def)
  have p: "address (client (clientPayload sample_numbers address_config example_now blank_address_state
      example_service example_slot)) = Some []"
    using a t v by (simp add: clientPayload_def build_client_def optional_field_def)
  have r: "snd (handleBookingSubmit sample_numbers address_config example_now
        (Responded (ok_response created_booking)) (Rejected ''unused'') blank_address_state) =
      [PostClient (clientPayload sample_numbers address_config example_now blank_address_state example_service example_slot)]"
    by (simp add: handleBookingSubmit_def blank_address_valid blank_address_slot blank_address_service
        booking_settled_def ok_response_def created_booking_def Let_def js_or_def opt_chain_def)
  from a t r p show ?thesis by (intro conjI)
qed

end
